theory Spec2Isabelle
  imports
    Main
    "HOL-Library.AList"
    "HOL-Library.Char_ord"
    "HOL-Library.List_Lexorder"
    "HOL-Library.Sublist"
begin

section \<open>KnobScripter: the document and session state of the editor widget\<close>

text \<open>
  A shallow embedding of the state handling of \<^verbatim>\<open>KnobScripterWidget\<close>
  (\<^verbatim>\<open>knob_scripter.py\<close>). The widget object becomes the record \<open>ks\<close>; every method
  that is modelled takes the record and returns the updated one. The collaborators of the
  widget are written into the same record:
  \<^item> the host node whose knobs are edited (\<open>node\<close>),
  \<^item> the scripts directory (\<open>files\<close>) and the state file (\<open>state_txt\<close>),
  \<^item> the text editor (\<open>editor_text\<close>, \<open>editor_scroll\<close>, \<open>editor_cursor\<close>),
  \<^item> the two drop-down boxes, and the message boxes shown so far (\<open>shown\<close>).

  Texts are \<open>string\<close>s; reading and writing a file transports the text unchanged. Logging,
  focus and widget visibility have no effect on the modelled state and are left out.
\<close>

subsection \<open>Python string helpers\<close>

definition endswith :: "string \<Rightarrow> string \<Rightarrow> bool" where
  "endswith s suf = suffix suf s"

fun py_replace_char :: "char \<Rightarrow> string \<Rightarrow> string \<Rightarrow> string" where
  \<comment> \<open>\<^verbatim>\<open>s.replace(c, r)\<close> for a one-character pattern \<open>c\<close>\<close>
  "py_replace_char c r [] = []"
| "py_replace_char c r (x # xs) = (if x = c then r @ py_replace_char c r xs else x # py_replace_char c r xs)"

fun split_head :: "string \<Rightarrow> string \<Rightarrow> string" where
  \<comment> \<open>\<^verbatim>\<open>s.split(sep)[0]\<close> for a non-empty \<open>sep\<close>: the text before its first occurrence\<close>
  "split_head sep [] = []"
| "split_head sep (x # xs) = (if prefix sep (x # xs) then [] else x # split_head sep xs)"

definition split_last :: "char \<Rightarrow> string \<Rightarrow> string" where
  \<comment> \<open>\<^verbatim>\<open>s.split(c)[-1]\<close>: the text after the last occurrence of \<open>c\<close>\<close>
  "split_last c s = rev (takeWhile (\<lambda>x. x \<noteq> c) (rev s))"

definition py_isspace :: "char \<Rightarrow> bool" where
  \<comment> \<open>the code points below 256 that \<^verbatim>\<open>str.strip()\<close> removes\<close>
  "py_isspace c = (of_char c \<in> {9::nat, 10, 11, 12, 13, 28, 29, 30, 31, 32, 133, 160})"

definition py_strip :: "string \<Rightarrow> string" where
  "py_strip s = rev (dropWhile py_isspace (rev (dropWhile py_isspace s)))"

subsection \<open>The host: nodes and knobs\<close>

record knob_obj =
  knob_Class :: string
  knob_label :: string
  knob_text :: string

record node_obj =
  node_Class :: string
  node_name :: string
  node_knobs :: "(string \<times> knob_obj) list"

text \<open>\<^verbatim>\<open>node.knob(k)\<close> gives the knob or \<^verbatim>\<open>None\<close>; \<^verbatim>\<open>node[k]\<close> raises when the knob is missing.\<close>

definition node_knob :: "node_obj \<Rightarrow> string \<Rightarrow> knob_obj option" where
  "node_knob n k = map_of (node_knobs n) k"

definition knob_setValue :: "string \<Rightarrow> string \<Rightarrow> node_obj \<Rightarrow> node_obj" where
  "knob_setValue k v n =
     (case node_knob n k of
        None \<Rightarrow> n
      | Some kb \<Rightarrow> n\<lparr>node_knobs := AList.update k (kb\<lparr>knob_text := v\<rparr>) (node_knobs n)\<rparr>)"

datatype language = Python | Blink

definition defaultKnobs :: "string list" where
  "defaultKnobs = [''knobChanged'', ''onCreate'', ''onScriptLoad'', ''onScriptSave'',
     ''onScriptClose'', ''onDestroy'', ''updateUI'', ''autolabel'', ''beforeRender'',
     ''beforeFrameRender'', ''afterFrameRender'', ''afterRender'']"

definition python_knob_classes :: "string list" where
  "python_knob_classes = [''PyScript_Knob'', ''PythonCustomKnob'']"

definition is_blink_knob :: "node_obj \<Rightarrow> string \<Rightarrow> bool" where
  \<comment> \<open>the knob is given by its node and its name\<close>
  "is_blink_knob n kn = (kn \<in> set [''kernelSource''] \<and> node_Class n \<in> set [''BlinkScript''])"

definition knobLanguage :: "node_obj \<Rightarrow> string \<Rightarrow> language option" where
  "knobLanguage n knobName =
     (case node_knob n knobName of
        None \<Rightarrow> None
      | Some kb \<Rightarrow>
          if knobName = ''kernelSource'' \<and> node_Class n = ''BlinkScript'' then Some Blink
          else if knobName \<in> set defaultKnobs \<or> knob_Class kb \<in> set python_knob_classes
            then Some Python
          else None)"


subsection \<open>Drop-down boxes (\<^verbatim>\<open>QComboBox\<close>) and message boxes\<close>

text \<open>
  An item is its text and its user data; a separator carries no data. The current index is
  \<open>-1\<close> while the box is empty. All modelled updates of a box happen with its signals
  blocked or do not move the current index, so no handler runs from them.
\<close>

record combo =
  combo_items :: "(string \<times> string option) list"
  combo_index :: int

definition combo_clear :: "combo \<Rightarrow> combo" where
  "combo_clear c = c\<lparr>combo_items := [], combo_index := -1\<rparr>"

definition addItem :: "string \<Rightarrow> string \<Rightarrow> combo \<Rightarrow> combo" where
  "addItem txt dat c =
     c\<lparr>combo_items := combo_items c @ [(txt, Some dat)],
       combo_index := (if combo_items c = [] then 0 else combo_index c)\<rparr>"

definition insertSeparator :: "int \<Rightarrow> combo \<Rightarrow> combo" where
  "insertSeparator i c =
     (let j = nat (min (max i 0) (int (length (combo_items c))))
      in c\<lparr>combo_items := take j (combo_items c) @ [([], None)] @ drop j (combo_items c),
            combo_index := (if combo_items c = [] then 0
                            else if int j \<le> combo_index c then combo_index c + 1
                            else combo_index c)\<rparr>)"

definition itemData :: "combo \<Rightarrow> int \<Rightarrow> string option" where
  "itemData c i =
     (if 0 \<le> i \<and> nat i < length (combo_items c) then snd (combo_items c ! nat i) else None)"

definition setItemText :: "int \<Rightarrow> string \<Rightarrow> combo \<Rightarrow> combo" where
  "setItemText i txt c =
     (if 0 \<le> i \<and> nat i < length (combo_items c)
      then c\<lparr>combo_items := (combo_items c)[nat i := (txt, snd (combo_items c ! nat i))]\<rparr>
      else c)"

definition item_datas :: "combo \<Rightarrow> string list" where
  \<comment> \<open>the user data of the items, separators left out\<close>
  "item_datas c = concat (map (\<lambda>it. case snd it of None \<Rightarrow> [] | Some d \<Rightarrow> [d]) (combo_items c))"

text \<open>
  A modelled operation shows at most one question per call. The answer the user gives is an
  argument of the operation (it is ignored when nothing is asked), and every box shown is
  appended to \<open>shown\<close>. An operation that can end in an uncaught exception returns an
  \<open>outcome\<close> beside the widget as the exception leaves it.
\<close>

datatype reply = Yes | No

datatype dialog =
    AskOverwriteEditor      \<comment> \<open>"The script has been modified." (load over a changed editor)\<close>
  | AskClearEditor          \<comment> \<open>"The .py file hasn't been found."\<close>
  | AskOverwriteEditorKnob  \<comment> \<open>"The Script Editor has been modified." (knob load over a changed editor)\<close>
  | AskDeleteScript string  \<comment> \<open>"You're about to delete this script."\<close>
  | AskReloadAllKnobs       \<comment> \<open>"Do you want to reload all python and callback knobs?"\<close>
  | AskOverwriteKnob string string  \<comment> \<open>"Do you want to overwrite node.knob?"\<close>
  | InfoUnableToFind string string  \<comment> \<open>"Unable to find node.knob"\<close>

datatype outcome = Returned | Raised

subsection \<open>The persisted state record\<close>

text \<open>
  The state file holds one JSON object. Its five known keys are fields of \<open>json_state\<close>
  (absent keys are \<open>None\<close>); any other key is kept in \<open>js_other\<close> with its value as text.
  A cursor entry is the pair (position, anchor).

  In memory the object is \<^verbatim>\<open>self.state_dict\<close>. The source stores the dictionary objects
  themselves (\<^verbatim>\<open>self.scrollPos = self.state_dict["scroll_pos"]\<close> on load and the converse
  assignment on save), so whenever \<^verbatim>\<open>state_dict\<close> has the key \<^verbatim>\<open>scroll_pos\<close> its value is the
  very object \<^verbatim>\<open>self.scrollPos\<close>, and likewise for \<^verbatim>\<open>cursor_pos\<close>. The model therefore
  keeps only whether each of these two keys is present.
\<close>

record json_state =
  js_scroll_pos :: "(string \<rightharpoonup> int) option"
  js_cursor_pos :: "(string \<rightharpoonup> int \<times> int) option"
  js_last_folder :: "string option"
  js_last_script :: "string option"
  js_splitter_sizes :: "int list option"
  js_other :: "string \<rightharpoonup> string"

record state_dict_rec =
  sd_has_scroll_pos :: bool
  sd_has_cursor_pos :: bool
  sd_last_folder :: "string option"
  sd_last_script :: "string option"
  sd_splitter_sizes :: "int list option"
  sd_other :: "string \<rightharpoonup> string"

definition empty_state_dict :: state_dict_rec where
  "empty_state_dict =
     \<lparr>sd_has_scroll_pos = False, sd_has_cursor_pos = False, sd_last_folder = None,
      sd_last_script = None, sd_splitter_sizes = None, sd_other = Map.empty\<rparr>"

subsection \<open>The widget\<close>

text \<open>
  A file of the scripts directory is addressed by its folder and its name, standing for
  \<^verbatim>\<open>os.path.join(config.py_scripts_dir, folder, name)\<close>. The directory is an association
  list from such paths to file contents.
\<close>

type_synonym path = "string \<times> string"

record ks =
  nodeMode :: bool
  node :: "node_obj option"
  knob :: string
  show_labels :: bool
  unsavedKnobs :: "(string \<times> string) list"
  modifiedKnobs :: "string set"
  scrollPos :: "string \<rightharpoonup> int"
  cursorPos :: "string \<rightharpoonup> int \<times> int"
  current_folder :: string
  current_script :: string
  script_index :: int
  current_script_modified :: bool
  current_knob_modified :: bool
  toAutosave :: bool
  toLoadKnob :: bool
  code_language :: "language option"
  state_dict :: state_dict_rec
  windowTitle :: string
  editor_text :: string
  editor_scroll :: int
  editor_cursor :: "int \<times> int"
  splitter_sizes :: "int list"
  current_knob_dropdown :: combo
  current_script_dropdown :: combo
  files :: "(path \<times> string) list"
  state_txt :: "json_state option"
  root_modified :: bool
  shown :: "dialog list"

definition isfile :: "ks \<Rightarrow> path \<Rightarrow> bool" where
  "isfile s p = (map_of (files s) p \<noteq> None)"

definition read_file :: "ks \<Rightarrow> path \<Rightarrow> string" where
  \<comment> \<open>only called on a path for which \<open>isfile\<close> holds\<close>
  "read_file s p = (case map_of (files s) p of Some c \<Rightarrow> c | None \<Rightarrow> [])"

definition write_file :: "path \<Rightarrow> string \<Rightarrow> ks \<Rightarrow> ks" where
  "write_file p c s = s\<lparr>files := AList.update p c (files s)\<rparr>"

definition remove_file :: "path \<Rightarrow> ks \<Rightarrow> ks" where
  "remove_file p s = s\<lparr>files := AList.delete p (files s)\<rparr>"

definition listdir :: "ks \<Rightarrow> string \<Rightarrow> string list" where
  "listdir s folder = map (\<lambda>e. snd (fst e)) (filter (\<lambda>e. fst (fst e) = folder) (files s))"

definition autosave_path :: "path \<Rightarrow> path" where
  \<comment> \<open>\<^verbatim>\<open>script_path + ".autosave"\<close>\<close>
  "autosave_path p = (fst p, snd p @ ''.autosave'')"

definition script_fullname :: "ks \<Rightarrow> string" where
  \<comment> \<open>\<^verbatim>\<open>self.current_folder + "/" + self.current_script\<close>\<close>
  "script_fullname s = current_folder s @ ''/'' @ current_script s"

definition ask :: "dialog \<Rightarrow> ks \<Rightarrow> ks" where
  \<comment> \<open>a message box is shown; the answer is an argument of the calling operation\<close>
  "ask d s = s\<lparr>shown := shown s @ [d]\<rparr>"

subsection \<open>Knob values\<close>

definition getKnobValue :: "string option \<Rightarrow> ks \<Rightarrow> string option" where
  \<comment> \<open>\<open>None\<close>: the lookup \<^verbatim>\<open>self.node[knob]\<close> raises. Both \<^verbatim>\<open>getValue()\<close> and \<^verbatim>\<open>value()\<close>
      read the text held by the knob.\<close>
  "getKnobValue k0 s =
     (let k = (if k0 = Some [] then Some (knob s) else k0)
      in case node s of
           None \<Rightarrow> None
         | Some n \<Rightarrow>
             (case k of
                None \<Rightarrow> None
              | Some kn \<Rightarrow>
                  if kn = ''kernelSource'' \<and> node_Class n = ''BlinkScript''
                  then map_option knob_text (node_knob n kn)
                  else map_option knob_text (node_knob n kn)))"

definition title_modified_string :: string where
  "title_modified_string = '' [modified]''"

definition retitle :: "bool \<Rightarrow> ks \<Rightarrow> ks" where
  \<comment> \<open>strip the modified mark from the window title and append it again when \<open>modified\<close>\<close>
  "retitle modified s =
     s\<lparr>windowTitle := split_head title_modified_string (windowTitle s)
                        @ (if modified then title_modified_string else [])\<rparr>"

definition knob_item_text :: "ks \<Rightarrow> string option \<Rightarrow> string option" where
  \<comment> \<open>the text of the current knob item as \<^verbatim>\<open>setKnobModified\<close> rebuilds it; \<open>None\<close> when
      an exception ends the guarded block\<close>
  "knob_item_text s kd_data =
     (case kd_data of
        None \<Rightarrow> None
      | Some d \<Rightarrow>
          if show_labels s \<and> d \<notin> set defaultKnobs then
            (case node s of
               None \<Rightarrow> None
             | Some n \<Rightarrow>
                 if d = ''kernelSource'' \<and> node_Class n = ''BlinkScript''
                 then Some ''Blinkscript Code (kernelSource)''
                 else (case node_knob n d of
                         None \<Rightarrow> None
                       | Some kb \<Rightarrow> Some (knob_label kb @ '' ('' @ d @ '')'')))
          else Some d)"

definition setKnobModified :: "bool \<Rightarrow> string \<Rightarrow> bool \<Rightarrow> ks \<Rightarrow> ks" where
  "setKnobModified modified knob_arg changeTitle s =
     (let k = (if knob_arg = [] then knob s else knob_arg);
          s1 = s\<lparr>modifiedKnobs := (if modified then insert k (modifiedKnobs s)
                                    else modifiedKnobs s - {k})\<rparr>;
          s2 = (if changeTitle then (retitle modified s1)\<lparr>current_knob_modified := modified\<rparr>
                else s1);
          kd_index = combo_index (current_knob_dropdown s2);
          kd_data = itemData (current_knob_dropdown s2) kd_index
      in case knob_item_text s2 kd_data of
           None \<Rightarrow> s2
         | Some t \<Rightarrow>
             s2\<lparr>current_knob_dropdown :=
                  setItemText kd_index (if modified then t @ ''(*)'' else t)
                    (current_knob_dropdown s2)\<rparr>)"

subsection \<open>Writing a Blink kernel through the host's Tcl interpreter\<close>

text \<open>
  For a Blink kernel the source does not call \<^verbatim>\<open>setValue\<close>; it builds the Tcl command
  \<^verbatim>\<open>knob <node>.kernelSource "<text>"\<close>, with \<^verbatim>\<open>"\<close> and \<^verbatim>\<open>[\<close> of the text preceded by a
  backslash, and hands it to \<^verbatim>\<open>nuke.tcl\<close>.
\<close>

definition dquote :: char where "dquote = CHR 0x22"
definition backslash :: char where "backslash = CHR 0x5C"

definition tcl_escape :: "string \<Rightarrow> string" where
  \<comment> \<open>\<^verbatim>\<open>edited_knobValue.replace('"', '\\"').replace('[', '\[')\<close>\<close>
  "tcl_escape t =
     py_replace_char (CHR ''['') [backslash, CHR ''['']
       (py_replace_char dquote [backslash, dquote] t)"

definition tcl_knob_command :: "string \<Rightarrow> string \<Rightarrow> string" where
  \<comment> \<open>\<^verbatim>\<open>'''knob {}.kernelSource "{}"'''.format(fullName, escaped)\<close>\<close>
  "tcl_knob_command fullName t =
     ''knob '' @ fullName @ ''.kernelSource '' @ [dquote] @ tcl_escape t @ [dquote]"

text \<open>
  The interpreter belongs to the host, not to the repository. \<open>tcl_dquote\<close> states the part
  of Tcl's rules for a word in double quotes that the command above depends on: the word
  ends at the next unescaped double quote; a backslash and the character after it stand for
  that character (for the letters \<^verbatim>\<open>a b f n r t v\<close>: a control character); an opening
  bracket starts a command substitution and a dollar sign before a name a variable
  substitution. The function reads the characters after the opening quote and gives the
  value of the word and the rest of the command. \<open>None\<close> stands for a word that Tcl rejects
  or that needs a substitution outside this fragment (commands, variables, numeric escapes,
  backslash-newline).
\<close>

definition tcl_control :: "char \<Rightarrow> char option" where
  "tcl_control c =
     (if c = CHR ''a'' then Some (CHR 0x07) else if c = CHR ''b'' then Some (CHR 0x08)
      else if c = CHR ''f'' then Some (CHR 0x0C) else if c = CHR ''n'' then Some (CHR 0x0A)
      else if c = CHR ''r'' then Some (CHR 0x0D) else if c = CHR ''t'' then Some (CHR 0x09)
      else if c = CHR ''v'' then Some (CHR 0x0B) else None)"

definition tcl_numeric_escape :: "char \<Rightarrow> bool" where
  "tcl_numeric_escape c = (c \<in> set ''xuU01234567'' \<or> c = CHR 0x0A)"

definition tcl_name_start :: "char \<Rightarrow> bool" where
  \<comment> \<open>a character that makes a preceding dollar sign a variable substitution\<close>
  "tcl_name_start c =
     (c \<in> set ''abcdefghijklmnopqrstuvwxyzABCDEFGHIJKLMNOPQRSTUVWXYZ0123456789_:{('')"

fun tcl_dquote :: "string \<Rightarrow> (string \<times> string) option" where
  "tcl_dquote [] = None"
| "tcl_dquote [c] = (if c = dquote then Some ([], []) else None)"
| "tcl_dquote (c # d # cs) =
     (if c = dquote then Some ([], d # cs)
      else if c = backslash then
        (if tcl_numeric_escape d then None
         else map_option (\<lambda>(v, r). ((case tcl_control d of Some x \<Rightarrow> x | None \<Rightarrow> d) # v, r))
                (tcl_dquote cs))
      else if c = CHR ''['' then None
      else if c = CHR ''$'' \<and> tcl_name_start d then None
      else map_option (\<lambda>(v, r). (c # v, r)) (tcl_dquote (d # cs)))"

definition nuke_tcl :: "string \<Rightarrow> node_obj \<Rightarrow> node_obj option" where
  \<comment> \<open>the effect of \<^verbatim>\<open>nuke.tcl(cmd)\<close> on the node \<open>n\<close>, for a command that sets the kernel
      source of \<open>n\<close>; \<open>None\<close>: \<^verbatim>\<open>nuke.tcl\<close> raises\<close>
  "nuke_tcl cmd n =
     (let head = ''knob '' @ node_name n @ ''.kernelSource '' @ [dquote]
      in if prefix head cmd then
           (case tcl_dquote (drop (length head) cmd) of
              Some (v, []) \<Rightarrow> if node_knob n ''kernelSource'' = None then None
                              else Some (knob_setValue ''kernelSource'' v n)
            | _ \<Rightarrow> None)
         else None)"

subsection \<open>Saving and reloading knobs\<close>

text \<open>
  When the lookup of the knob raises, \<^verbatim>\<open>saveKnobValue\<close> shows "Unable to find" and then calls
  \<^verbatim>\<open>setWindowFlags\<close> on the button code that \<^verbatim>\<open>QMessageBox.information\<close> returned, which
  raises; with the node gone, building the message raises before any box is shown.
\<close>

definition saveKnobValue :: "bool \<Rightarrow> reply \<Rightarrow> ks \<Rightarrow> outcome \<times> ks" where
  "saveKnobValue check answer s =
     (let dropdown_value = itemData (current_knob_dropdown s) (combo_index (current_knob_dropdown s))
      in case (getKnobValue dropdown_value s, dropdown_value, node s) of
           (Some obtained_knobValue, Some dv, Some n) \<Rightarrow>
             (let s1 = s\<lparr>knob := dv\<rparr>;
                  edited_knobValue = editor_text s1;
                  asked = (check \<and> obtained_knobValue \<noteq> edited_knobValue);
                  s2 = (if asked then ask (AskOverwriteKnob (node_name n) dv) s1 else s1)
              in if asked \<and> answer = No then (Returned, s2)
                 else
                   (case (if dv = ''kernelSource'' \<and> node_Class n = ''BlinkScript''
                          then nuke_tcl (tcl_knob_command (node_name n) edited_knobValue) n
                          else if node_knob n dv = None then None
                          else Some (knob_setValue dv edited_knobValue n)) of
                      None \<Rightarrow> (Raised, s2)
                    | Some n' \<Rightarrow>
                        (let s3 = setKnobModified False dv True (s2\<lparr>node := Some n'\<rparr>);
                             s4 = s3\<lparr>root_modified := True\<rparr>
                         in (Returned,
                             if map_of (unsavedKnobs s4) (knob s4) \<noteq> None
                             then s4\<lparr>unsavedKnobs := AList.delete (knob s4) (unsavedKnobs s4)\<rparr>
                             else s4))))
         | (_, _, None) \<Rightarrow> (Raised, s)
         | (_, dv, Some n) \<Rightarrow>
             (Raised, ask (InfoUnableToFind (node_name n) (case dv of None \<Rightarrow> ''None'' | Some d \<Rightarrow> d)) s))"

fun py_index :: "'a \<Rightarrow> 'a list \<Rightarrow> nat" where
  \<comment> \<open>\<^verbatim>\<open>xs.index(x)\<close>, called only when \<open>x\<close> is in \<open>xs\<close>\<close>
  "py_index x [] = 0"
| "py_index x (y # ys) = (if x = y then 0 else Suc (py_index x ys))"

definition KnobDropdownItems :: "combo \<Rightarrow> string list" where
  \<comment> \<open>the list that \<^verbatim>\<open>setCurrentKnob\<close> builds: the data of every item, \<^verbatim>\<open>---\<close> for a separator\<close>
  "KnobDropdownItems c = map (\<lambda>it. case snd it of None \<Rightarrow> ''---'' | Some d \<Rightarrow> d) (combo_items c)"

text \<open>
  \<^verbatim>\<open>loadKnobValue\<close> is also the handler of the knob box's \<^verbatim>\<open>currentIndexChanged\<close> signal, as
  \<^verbatim>\<open>loadKnobValue(False, updateDict=True)\<close>. When the user declines the question,
  \<^verbatim>\<open>setCurrentKnob(prev_knob)\<close> moves the box back; if that changes the current index the
  signal runs the handler, whose exceptions stay in the slot. While the method fills the
  editor the editor's signals are blocked, so the text is set without \<^verbatim>\<open>setModified\<close>.
  \<^verbatim>\<open>knobLanguage\<close> is called before the guarded block: it raises when the node is gone.
\<close>

function loadKnobValue :: "bool \<Rightarrow> bool \<Rightarrow> reply \<Rightarrow> ks \<Rightarrow> outcome \<times> ks" where
  "loadKnobValue check updateDict answer s =
     (if \<not> toLoadKnob s then (Returned, s)
      else
        (case node s of
           None \<Rightarrow> (Raised, s)
         | Some n \<Rightarrow>
             (case itemData (current_knob_dropdown s) (combo_index (current_knob_dropdown s)) of
                None \<Rightarrow> (Returned, s)
              | Some dv \<Rightarrow>
                  (case knobLanguage n dv of
                     None \<Rightarrow> (Returned, s)
                   | Some knob_language \<Rightarrow>
                       (case node_knob n dv of
                          None \<Rightarrow> (Raised, ask (InfoUnableToFind (node_name n) dv) s)
                        | Some kb \<Rightarrow>
                            (let obtained_knobValue = knob_text kb;
                                 edited_knobValue = editor_text s;
                                 s1 = (if updateDict
                                       then s\<lparr>unsavedKnobs := AList.update (knob s) edited_knobValue (unsavedKnobs s),
                                              scrollPos := (scrollPos s)(knob s \<mapsto> editor_scroll s)\<rparr>
                                       else s);
                                 prev_knob = knob s1;
                                 s2 = s1\<lparr>knob := dv\<rparr>
                             in if check \<and> obtained_knobValue \<noteq> edited_knobValue \<and> answer = No then
                                  (let s3 = ask AskOverwriteEditorKnob s2;
                                       items = KnobDropdownItems (current_knob_dropdown s3)
                                   in if prev_knob \<in> set items then
                                        (let i = int (py_index prev_knob items)
                                         in if i = combo_index (current_knob_dropdown s3) then (Returned, s3)
                                            else (Returned,
                                                  snd (loadKnobValue False True answer
                                                        (s3\<lparr>current_knob_dropdown :=
                                                              (current_knob_dropdown s3)\<lparr>combo_index := i\<rparr>\<rparr>))))
                                      else (Returned, s3))
                                else
                                  (let s3 = (if check \<and> obtained_knobValue \<noteq> edited_knobValue
                                             then ask AskOverwriteEditorKnob s2 else s2);
                                       s4 = s3\<lparr>windowTitle := ''KnobScripter - '' @ node_name n @ '' '' @ knob s3\<rparr>;
                                       s5 = (if updateDict then
                                               (case map_of (unsavedKnobs s4) (knob s4) of
                                                  Some stored \<Rightarrow>
                                                    if stored = obtained_knobValue
                                                    then setKnobModified False [] True (s4\<lparr>editor_text := obtained_knobValue\<rparr>)
                                                    else setKnobModified True [] True (s4\<lparr>editor_text := stored\<rparr>)
                                                | None \<Rightarrow>
                                                    setKnobModified False [] True (s4\<lparr>editor_text := obtained_knobValue\<rparr>))
                                             else s4\<lparr>editor_text := obtained_knobValue\<rparr>);
                                       obtained_scrollValue =
                                         (if updateDict
                                          then (case scrollPos s5 (knob s5) of Some v \<Rightarrow> v | None \<Rightarrow> 0)
                                          else 0)
                                   in (Returned,
                                       s5\<lparr>editor_scroll := obtained_scrollValue,
                                          code_language := Some knob_language\<rparr>))))))))"
  by pat_completeness auto
termination
  by (relation "measure (\<lambda>(check, updateDict, answer, s). if check then 1 else 0)") auto

declare loadKnobValue.simps [simp del]

definition loadAllKnobValues :: "reply \<Rightarrow> ks \<Rightarrow> ks" where
  "loadAllKnobValues answer s =
     (let asked = (length (unsavedKnobs s) \<ge> 1);
          s1 = (if asked then ask AskReloadAllKnobs s else s)
      in if asked \<and> answer = No then s1
         else s1\<lparr>unsavedKnobs := []\<rparr>)"

definition filter_truthy :: "string option list \<Rightarrow> string list" where
  \<comment> \<open>\<^verbatim>\<open>list(filter(None, xs))\<close>: drops \<^verbatim>\<open>None\<close> and the empty string\<close>
  "filter_truthy xs = concat (map (\<lambda>x. case x of None \<Rightarrow> [] | Some d \<Rightarrow> if d = [] then [] else [d]) xs)"

fun prune_unsaved :: "string list \<Rightarrow> ks \<Rightarrow> ks option" where
  \<comment> \<open>the loop \<^verbatim>\<open>for k in self.unsavedKnobs.copy()\<close> of \<^verbatim>\<open>updateUnsavedKnobs\<close>;
      \<open>None\<close>: an exception leaves the loop\<close>
  "prune_unsaved [] s = Some s"
| "prune_unsaved (k # rest) s =
     (case node s of
        None \<Rightarrow> None
      | Some n \<Rightarrow>
          (case map_of (unsavedKnobs s) k of
             None \<Rightarrow> None
           | Some u \<Rightarrow>
               (case node_knob n k of
                  None \<Rightarrow> prune_unsaved rest (s\<lparr>unsavedKnobs := AList.delete k (unsavedKnobs s)\<rparr>)
                | Some kb \<Rightarrow>
                    (case getKnobValue (Some k) s of
                       None \<Rightarrow> None
                     | Some v \<Rightarrow>
                         if v = u
                         then prune_unsaved rest (s\<lparr>unsavedKnobs := AList.delete k (unsavedKnobs s)\<rparr>)
                         else prune_unsaved rest s))))"

definition mark_knobs :: "string list \<Rightarrow> ks \<Rightarrow> ks" where
  \<comment> \<open>the loop \<^verbatim>\<open>for key in all_knobs\<close> of \<^verbatim>\<open>updateUnsavedKnobs\<close>\<close>
  "mark_knobs all_knobs s =
     fold (\<lambda>key s'. setKnobModified (map_of (unsavedKnobs s') key \<noteq> None) key False s') all_knobs s"

definition updateUnsavedKnobs :: "ks \<Rightarrow> (nat \<times> ks) option" where
  \<comment> \<open>the returned count and the widget; \<open>None\<close>: an exception escapes\<close>
  "updateUnsavedKnobs s =
     (case node s of
        None \<Rightarrow> Some (0, s)
      | Some n \<Rightarrow>
          (let edited_knobValue = editor_text s;
               s1 = s\<lparr>unsavedKnobs := AList.update (knob s) edited_knobValue (unsavedKnobs s)\<rparr>
           in case (if length (unsavedKnobs s1) > 0
                    then prune_unsaved (map fst (unsavedKnobs s1)) s1 else Some s1) of
                None \<Rightarrow> None
              | Some s2 \<Rightarrow>
                  (let all_knobs = filter_truthy (map snd (combo_items (current_knob_dropdown s2)));
                       s3 = mark_knobs all_knobs s2
                   in Some (length (unsavedKnobs s3), s3))))"

subsection \<open>The modified flag and the editor's change signal\<close>

definition setScriptModified :: "bool \<Rightarrow> ks \<Rightarrow> ks" where
  "setScriptModified modified s =
     (let s1 = retitle modified (s\<lparr>current_script_modified := modified\<rparr>);
          sd_index = combo_index (current_script_dropdown s1)
      in case itemData (current_script_dropdown s1) sd_index of
           None \<Rightarrow> s1
         | Some sd_data \<Rightarrow>
             s1\<lparr>current_script_dropdown :=
                  setItemText sd_index (if modified then sd_data @ ''(*)'' else sd_data)
                    (current_script_dropdown s1)\<rparr>)"

definition setModified :: "ks \<Rightarrow> ks" where
  \<comment> \<open>the slot connected to the editor's \<^verbatim>\<open>textChanged\<close> signal. An exception raised in a
      slot ends the slot and is not passed on to the code that changed the text.\<close>
  "setModified s =
     (if nodeMode s then
        (if \<not> current_knob_modified s then
           (case getKnobValue (Some (knob s)) s of
              None \<Rightarrow> s
            | Some v \<Rightarrow> if v \<noteq> editor_text s then setKnobModified True [] True s else s)
         else s)
      else
        (let s1 = (if \<not> current_script_modified s then setScriptModified True s else s)
         in if \<not> nodeMode s1 then s1\<lparr>toAutosave := True\<rparr> else s1))"

definition setPlainText :: "string \<Rightarrow> ks \<Rightarrow> ks" where
  \<comment> \<open>\<^verbatim>\<open>self.script_editor.setPlainText(t)\<close>: the text is replaced and \<^verbatim>\<open>textChanged\<close> is
      emitted (the modelled methods never block the editor's signals)\<close>
  "setPlainText t s = setModified (s\<lparr>editor_text := t\<rparr>)"

definition user_edit :: "string \<Rightarrow> ks \<Rightarrow> ks" where
  \<comment> \<open>the user changes the buffer to \<open>t\<close> in the editor; the editor emits \<^verbatim>\<open>textChanged\<close>\<close>
  "user_edit t s = setModified (s\<lparr>editor_text := t\<rparr>)"

subsection \<open>Enumerating the scripts of a folder\<close>

definition defaultScripts :: "string list" where
  "defaultScripts = [''Untitled.py'']"

definition script_item :: "string list \<Rightarrow> string \<Rightarrow> string \<Rightarrow> combo \<Rightarrow> combo" where
  \<comment> \<open>add the script \<open>s\<close> under the name \<open>sname\<close>, marked when its autosave file is present\<close>
  "script_item found_temp_scripts s sname c =
     (if (s @ ''.autosave'') \<in> set found_temp_scripts
      then addItem (sname @ ''(*)'') sname c else addItem sname sname c)"

text \<open>
  The first item of the rebuilt box is always a script (the default one when the folder has
  none), so \<^verbatim>\<open>itemData(0)\<close> is a name; the model keeps the old name in the other case, which
  does not occur.
\<close>

definition updateScriptsDropdown :: "ks \<Rightarrow> ks" where
  "updateScriptsDropdown s =
     (let dir_list = listdir s (current_folder s);
          found_scripts = sort (filter (\<lambda>f. endswith f ''.py'') dir_list);
          found_temp_scripts = filter (\<lambda>f. endswith f ''.py.autosave'') dir_list;
          c0 = (combo_clear (current_script_dropdown s), 0::int);
          c1 = (if found_scripts = [] then
                  fold (\<lambda>d (c, counter). (script_item found_temp_scripts d d c, counter + 1))
                    defaultScripts c0
                else
                  fold (\<lambda>f (c, counter).
                          if f \<in> set defaultScripts then (c, counter)
                          else (script_item found_temp_scripts f (split_last (CHR ''/'') f) c,
                                counter + 1))
                    found_scripts
                    (fold (\<lambda>d (c, counter).
                             if (d @ ''.autosave'') \<in> set found_temp_scripts
                             then (addItem (d @ ''(*)'') d c, counter)
                             else if d \<in> set found_scripts then (addItem d d c, counter)
                             else (c, counter))
                       defaultScripts c0));
          c2 = (if snd c1 > 0
                then insertSeparator (snd c1 + 2) (insertSeparator (snd c1 + 1) (fst c1))
                else fst c1);
          c3 = addItem ''Open'' ''open in browser''
                 (addItem ''Delete'' ''delete script''
                   (addItem ''Duplicate'' ''create duplicate''
                     (addItem ''New'' ''create new'' c2)))
      in s\<lparr>current_script_dropdown := c3,
           script_index := 0,
           current_script := (case itemData c3 0 of Some d \<Rightarrow> d | None \<Rightarrow> current_script s)\<rparr>)"

subsection \<open>Scroll, cursor and the persisted state\<close>

definition saveScrollValue :: "ks \<Rightarrow> ks" where
  "saveScrollValue s =
     (if nodeMode s then s\<lparr>scrollPos := (scrollPos s)(knob s \<mapsto> editor_scroll s)\<rparr>
      else s\<lparr>scrollPos := (scrollPos s)(script_fullname s \<mapsto> editor_scroll s)\<rparr>)"

definition saveCursorPosValue :: "ks \<Rightarrow> ks" where
  "saveCursorPosValue s = s\<lparr>cursorPos := (cursorPos s)(script_fullname s \<mapsto> editor_cursor s)\<rparr>"

definition dict_of_json :: "json_state \<Rightarrow> state_dict_rec" where
  "dict_of_json j =
     \<lparr>sd_has_scroll_pos = (js_scroll_pos j \<noteq> None), sd_has_cursor_pos = (js_cursor_pos j \<noteq> None),
      sd_last_folder = js_last_folder j, sd_last_script = js_last_script j,
      sd_splitter_sizes = js_splitter_sizes j, sd_other = js_other j\<rparr>"

definition json_of_dict :: "ks \<Rightarrow> json_state" where
  \<comment> \<open>what \<^verbatim>\<open>json.dump(self.state_dict, f)\<close> writes\<close>
  "json_of_dict s =
     \<lparr>js_scroll_pos = (if sd_has_scroll_pos (state_dict s) then Some (scrollPos s) else None),
      js_cursor_pos = (if sd_has_cursor_pos (state_dict s) then Some (cursorPos s) else None),
      js_last_folder = sd_last_folder (state_dict s), js_last_script = sd_last_script (state_dict s),
      js_splitter_sizes = sd_splitter_sizes (state_dict s), js_other = sd_other (state_dict s)\<rparr>"

definition loadScriptState :: "ks \<Rightarrow> ks" where
  "loadScriptState s =
     (let s1 = s\<lparr>state_dict := empty_state_dict\<rparr>
      in case state_txt s1 of
           None \<Rightarrow> s1
         | Some j \<Rightarrow>
             (let s2 = s1\<lparr>state_dict := dict_of_json j\<rparr>;
                  s3 = (case js_scroll_pos j of Some m \<Rightarrow> s2\<lparr>scrollPos := m\<rparr> | None \<Rightarrow> s2)
              in (case js_cursor_pos j of Some m \<Rightarrow> s3\<lparr>cursorPos := m\<rparr> | None \<Rightarrow> s3)))"

definition setScriptState :: "ks \<Rightarrow> ks" where
  "setScriptState s =
     (let s1 = (if sd_has_scroll_pos (state_dict s)
                then (case scrollPos s (script_fullname s) of
                        Some v \<Rightarrow> s\<lparr>editor_scroll := v\<rparr> | None \<Rightarrow> s)
                else s);
          s2 = (if sd_has_cursor_pos (state_dict s1)
                then (case cursorPos s1 (script_fullname s1) of
                        Some pa \<Rightarrow> s1\<lparr>editor_cursor := pa\<rparr> | None \<Rightarrow> s1)
                else s1)
      in case sd_splitter_sizes (state_dict s2) of
           Some sizes \<Rightarrow> s2\<lparr>splitter_sizes := sizes\<rparr>
         | None \<Rightarrow> s2)"

definition saveScriptState :: "ks \<Rightarrow> ks" where
  "saveScriptState s =
     (let s1 = loadScriptState s;
          s2 = saveCursorPosValue (saveScrollValue s1);
          s3 = s2\<lparr>state_dict := (state_dict s2)
                 \<lparr>sd_has_scroll_pos := True, sd_has_cursor_pos := True,
                  sd_last_folder := Some (current_folder s2),
                  sd_last_script := Some (current_script s2),
                  sd_splitter_sizes := Some (splitter_sizes s2)\<rparr>\<rparr>
      in s3\<lparr>state_txt := Some (json_of_dict s3)\<rparr>)"

subsection \<open>Saving, deleting and loading a script\<close>

definition script_path :: "ks \<Rightarrow> string \<Rightarrow> path" where
  \<comment> \<open>the path of the current script in \<open>folder\<close>, or in the current folder for \<^verbatim>\<open>""\<close>\<close>
  "script_path s folder = ((if folder = [] then current_folder s else folder), current_script s)"

definition saveScriptContents :: "bool \<Rightarrow> ks \<Rightarrow> ks" where
  "saveScriptContents temp s =
     (let p = script_path s [];
          p_temp = autosave_path p;
          content = editor_text s;
          compare = (\<lambda>orig_content.
            if content \<noteq> orig_content
            then saveCursorPosValue (saveScrollValue (write_file p_temp content s))
            else (if isfile s p_temp then remove_file p_temp s else s))
      in if temp then
           (if isfile s p then compare (read_file s p)
            else if content = [] \<and> isfile s p_temp then remove_file p_temp s
            else compare [])
         else
           (let s1 = write_file p (editor_text s) s;
                s2 = (if isfile s1 p_temp then remove_file p_temp s1 else s1);
                s3 = setScriptModified False s2
            in saveCursorPosValue (saveScrollValue s3)))"

definition deleteScript :: "bool \<Rightarrow> string \<Rightarrow> reply \<Rightarrow> ks \<Rightarrow> bool \<times> ks" where
  "deleteScript check folder answer s =
     (let p = script_path s folder;
          p_temp = autosave_path p;
          s1 = (if check then ask (AskDeleteScript (current_script s)) s else s)
      in if check \<and> answer = No then (False, s1)
         else
           (let s2 = (if isfile s1 p_temp then remove_file p_temp s1 else s1);
                s3 = (if isfile s2 p then remove_file p s2 else s2)
            in (True, s3)))"

function loadScriptContents :: "bool \<Rightarrow> bool \<Rightarrow> string \<Rightarrow> reply \<Rightarrow> ks \<Rightarrow> ks" where
  "loadScriptContents check pyOnly folder answer s =
     (let p = script_path s folder;
          p_temp = autosave_path p;
          obtained_scrollValue = (case scrollPos s (script_fullname s) of Some v \<Rightarrow> v | None \<Rightarrow> 0);
          titled = (\<lambda>s'. s'\<lparr>windowTitle := ''KnobScripter - '' @ current_folder s' @ ''/'' @ current_script s'\<rparr>)
      in if isfile s p_temp \<and> \<not> pyOnly then
           (let content = read_file s p_temp;
                s1 = setPlainText content s;
                s2 = setScriptModified True s1
            in titled (s2\<lparr>editor_scroll := obtained_scrollValue\<rparr>))
         else if isfile s p then
           (let content = read_file s p;
                current_text = editor_text s;
                asked = (check \<and> current_text \<noteq> content \<and> py_strip current_text \<noteq> []);
                s0 = (if asked then ask AskOverwriteEditor s else s)
            in if asked \<and> answer = No then s0
               else
                 (let s1 = (if isfile s0 p_temp then remove_file p_temp s0 else s0);
                      s2 = setScriptModified False s1;
                      s3 = setPlainText content s2;
                      s4 = setScriptModified False (s3\<lparr>editor_scroll := obtained_scrollValue\<rparr>)
                  in titled (setScriptState (loadScriptState s4))))
         else if isfile s p_temp then
           (let s0 = ask AskClearEditor s
            in if answer = No then s0
               else
                 (let s1 = remove_file p_temp s0;
                      s2 = setPlainText [] s1;
                      s3 = updateScriptsDropdown s2;
                      s4 = loadScriptContents False False [] answer s3
                  in titled (setScriptState (loadScriptState s4))))
         else
           (let s1 = setPlainText [] s;
                s2 = setScriptModified False s1;
                key = script_fullname s2
            in titled (s2\<lparr>scrollPos := (scrollPos s2)(key := None),
                           cursorPos := (cursorPos s2)(key := None)\<rparr>)))"
  by pat_completeness auto
termination
  by (relation "measure (\<lambda>(check, pyOnly, folder, answer, s). if pyOnly then 1 else 0)") auto

declare loadScriptContents.simps [simp del]

subsection \<open>Concrete nodes and widgets\<close>

definition ex_blink_node :: node_obj where
  "ex_blink_node =
     \<lparr>node_Class = ''BlinkScript'', node_name = ''BlinkScript1'',
      node_knobs =
        [(''kernelSource'', \<lparr>knob_Class = ''Multiline_Eval_String_Knob'', knob_label = ''Kernel'', knob_text = ''kernel K {}''\<rparr>),
         (''knobChanged'', \<lparr>knob_Class = ''String_Knob'', knob_label = ''knobChanged'', knob_text = ''print(1)''\<rparr>),
         (''reload'', \<lparr>knob_Class = ''PyScript_Knob'', knob_label = ''Reload'', knob_text = ''go()''\<rparr>),
         (''label'', \<lparr>knob_Class = ''Multiline_Eval_String_Knob'', knob_label = ''label'', knob_text = []\<rparr>)]\<rparr>"

definition ex_script_ks :: ks where
  \<comment> \<open>a widget in script mode on \<^verbatim>\<open>scripts/a.py\<close>, whose file holds \<^verbatim>\<open>a\<close>\<close>
  "ex_script_ks =
     \<lparr>nodeMode = False, node = None, knob = ''knobChanged'', show_labels = False,
      unsavedKnobs = [], modifiedKnobs = {}, scrollPos = Map.empty, cursorPos = Map.empty,
      current_folder = ''scripts'', current_script = ''a.py'', script_index = 0,
      current_script_modified = False, current_knob_modified = False, toAutosave = False,
      toLoadKnob = True, code_language = None,
      state_dict = empty_state_dict, windowTitle = ''KnobScripter - scripts/a.py'',
      editor_text = [], editor_scroll = 0, editor_cursor = (0, 0), splitter_sizes = [1, 1],
      current_knob_dropdown = \<lparr>combo_items = [], combo_index = -1\<rparr>,
      current_script_dropdown = \<lparr>combo_items = [(''a.py'', Some ''a.py'')], combo_index = 0\<rparr>,
      files = [((''scripts'', ''a.py''), ''a'')], state_txt = None, root_modified = False,
      shown = []\<rparr>"

definition ex_node_ks :: ks where
  \<comment> \<open>a widget in node mode on the knob \<^verbatim>\<open>reload\<close> of \<open>ex_blink_node\<close>, with one unsaved knob\<close>
  "ex_node_ks =
     ex_script_ks
       \<lparr>nodeMode := True, node := Some ex_blink_node, knob := ''reload'',
        unsavedKnobs := [(''knobChanged'', ''print(2)'')], modifiedKnobs := {''knobChanged''},
        editor_text := ''stop()'',
        current_knob_dropdown :=
          \<lparr>combo_items = [(''reload'', Some ''reload''), ([], None), ([], None),
                           (''knobChanged(*)'', Some ''knobChanged'')],
           combo_index = 0\<rparr>\<rparr>"

definition stored_scroll :: "ks \<Rightarrow> string \<Rightarrow> int option" where
  \<comment> \<open>the scroll position that the state file holds for a document\<close>
  "stored_scroll s key =
     (case state_txt s of
        None \<Rightarrow> None
      | Some j \<Rightarrow> (case js_scroll_pos j of None \<Rightarrow> None | Some m \<Rightarrow> m key))"

definition stored_other :: "ks \<Rightarrow> string \<Rightarrow> string option" where
  \<comment> \<open>the value that the state file holds under a key other than the five known ones\<close>
  "stored_other s key = (case state_txt s of None \<Rightarrow> None | Some j \<Rightarrow> js_other j key)"

definition ex_state_ks :: ks where
  \<comment> \<open>\<open>ex_script_ks\<close> remembering a scroll position for \<^verbatim>\<open>scripts/c.py\<close>, beside a state file
      written by another widget\<close>
  "ex_state_ks =
     ex_script_ks
       \<lparr>scrollPos := [''scripts/c.py'' \<mapsto> 5],
        state_txt := Some \<lparr>js_scroll_pos = Some [''scripts/b.py'' \<mapsto> 7], js_cursor_pos = None,
                           js_last_folder = Some ''scripts'', js_last_script = Some ''b.py'',
                           js_splitter_sizes = None, js_other = [''theme'' \<mapsto> ''dark'']\<rparr>\<rparr>"

definition ex_reloaded :: ks where
  \<comment> \<open>\<open>ex_script_ks\<close> after the reload button: the buffer is the content of \<^verbatim>\<open>scripts/a.py\<close>\<close>
  "ex_reloaded = loadScriptContents True True [] Yes ex_script_ks"

definition ex_edited_back :: ks where
  \<comment> \<open>the user types \<^verbatim>\<open>b\<close> after the \<^verbatim>\<open>a\<close> and deletes it again\<close>
  "ex_edited_back = user_edit ''a'' (user_edit ''ab'' ex_reloaded)"

definition ex_autosaved_ks :: ks where
  \<comment> \<open>\<open>ex_script_ks\<close> with a pending autosave file for \<^verbatim>\<open>scripts/a.py\<close>\<close>
  "ex_autosaved_ks = ex_script_ks\<lparr>files := [((''scripts'', ''a.py''), ''A''), ((''scripts'', ''a.py.autosave''), ''B'')]\<rparr>"

definition ex_deleted_node_ks :: ks where
  \<comment> \<open>\<open>ex_node_ks\<close> after its node was deleted\<close>
  "ex_deleted_node_ks = ex_node_ks\<lparr>node := None\<rparr>"

definition ex_untitled_ks :: ks where
  \<comment> \<open>a widget on \<^verbatim>\<open>scripts/Untitled.py\<close>, the only script of its folder, with a pending autosave\<close>
  "ex_untitled_ks =
     ex_script_ks
       \<lparr>current_script := ''Untitled.py'',
        files := [((''scripts'', ''Untitled.py''), ''x''), ((''scripts'', ''Untitled.py.autosave''), ''y'')]\<rparr>"

definition ex_two_scripts_ks :: ks where
  \<comment> \<open>a widget on \<^verbatim>\<open>scripts/a.py\<close> beside \<^verbatim>\<open>scripts/b.py\<close>\<close>
  "ex_two_scripts_ks =
     ex_script_ks\<lparr>files := [((''scripts'', ''a.py''), ''a''), ((''scripts'', ''b.py''), ''b'')]\<rparr>"

definition ex_blink_ks :: ks where
  \<comment> \<open>a widget in node mode on the kernel of \<open>ex_blink_node\<close>; the buffer holds two backslashes\<close>
  "ex_blink_ks =
     ex_script_ks
       \<lparr>nodeMode := True, node := Some ex_blink_node, knob := ''kernelSource'',
        editor_text := [backslash, backslash],
        current_knob_dropdown :=
          \<lparr>combo_items = [(''Blinkscript Code (kernelSource)'', Some ''kernelSource''),
                           ([], None), ([], None), (''knobChanged'', Some ''knobChanged'')],
           combo_index = 0\<rparr>\<rparr>"

definition ex_one_dirty_ks :: ks where
  \<comment> \<open>\<open>ex_node_ks\<close> with the buffer equal to the value of the current knob \<^verbatim>\<open>reload\<close>: the
      unsaved text of \<^verbatim>\<open>knobChanged\<close> is the only difference from the node\<close>
  "ex_one_dirty_ks = ex_node_ks\<lparr>editor_text := ''go()''\<rparr>"

section \<open>Properties\<close>

subsection \<open>What the small operations leave unchanged\<close>

lemma retitle_fields [simp]:
  "shown (retitle m s) = shown s" "node (retitle m s) = node s" "knob (retitle m s) = knob s"
  "editor_text (retitle m s) = editor_text s" "unsavedKnobs (retitle m s) = unsavedKnobs s"
  "files (retitle m s) = files s" "nodeMode (retitle m s) = nodeMode s"
  "current_script_modified (retitle m s) = current_script_modified s"
  "current_knob_modified (retitle m s) = current_knob_modified s"
  "current_folder (retitle m s) = current_folder s" "current_script (retitle m s) = current_script s"
  "current_knob_dropdown (retitle m s) = current_knob_dropdown s"
  "current_script_dropdown (retitle m s) = current_script_dropdown s"
  "scrollPos (retitle m s) = scrollPos s" "cursorPos (retitle m s) = cursorPos s"
  "state_txt (retitle m s) = state_txt s" "toAutosave (retitle m s) = toAutosave s"
  "show_labels (retitle m s) = show_labels s" "modifiedKnobs (retitle m s) = modifiedKnobs s"
  "editor_scroll (retitle m s) = editor_scroll s" "editor_cursor (retitle m s) = editor_cursor s"
  "splitter_sizes (retitle m s) = splitter_sizes s" "state_dict (retitle m s) = state_dict s"
  by (simp_all add: retitle_def)

lemma setKnobModified_fields [simp]:
  "shown (setKnobModified m k c s) = shown s" "node (setKnobModified m k c s) = node s"
  "knob (setKnobModified m k c s) = knob s" "editor_text (setKnobModified m k c s) = editor_text s"
  "unsavedKnobs (setKnobModified m k c s) = unsavedKnobs s" "files (setKnobModified m k c s) = files s"
  "nodeMode (setKnobModified m k c s) = nodeMode s"
  "current_script_modified (setKnobModified m k c s) = current_script_modified s"
  "current_folder (setKnobModified m k c s) = current_folder s"
  "current_script (setKnobModified m k c s) = current_script s"
  "scrollPos (setKnobModified m k c s) = scrollPos s" "cursorPos (setKnobModified m k c s) = cursorPos s"
  "state_txt (setKnobModified m k c s) = state_txt s" "toAutosave (setKnobModified m k c s) = toAutosave s"
  "current_knob_modified (setKnobModified m k c s) = (if c then m else current_knob_modified s)"
  by (simp_all add: setKnobModified_def Let_def split: option.splits)

lemma setScriptModified_fields [simp]:
  "shown (setScriptModified m s) = shown s" "node (setScriptModified m s) = node s"
  "knob (setScriptModified m s) = knob s" "editor_text (setScriptModified m s) = editor_text s"
  "unsavedKnobs (setScriptModified m s) = unsavedKnobs s" "files (setScriptModified m s) = files s"
  "nodeMode (setScriptModified m s) = nodeMode s"
  "current_script_modified (setScriptModified m s) = m"
  "current_knob_modified (setScriptModified m s) = current_knob_modified s"
  "current_folder (setScriptModified m s) = current_folder s"
  "current_script (setScriptModified m s) = current_script s"
  "scrollPos (setScriptModified m s) = scrollPos s" "cursorPos (setScriptModified m s) = cursorPos s"
  "state_txt (setScriptModified m s) = state_txt s" "toAutosave (setScriptModified m s) = toAutosave s"
  "editor_scroll (setScriptModified m s) = editor_scroll s"
  by (simp_all add: setScriptModified_def Let_def split: option.splits)

lemma setModified_fields [simp]:
  "shown (setModified s) = shown s" "node (setModified s) = node s"
  "knob (setModified s) = knob s" "editor_text (setModified s) = editor_text s"
  "unsavedKnobs (setModified s) = unsavedKnobs s" "files (setModified s) = files s"
  "nodeMode (setModified s) = nodeMode s"
  "current_folder (setModified s) = current_folder s"
  "current_script (setModified s) = current_script s"
  "scrollPos (setModified s) = scrollPos s" "cursorPos (setModified s) = cursorPos s"
  "state_txt (setModified s) = state_txt s"
  by (simp_all add: setModified_def Let_def split: option.splits)

lemma setModified_script_flag:
  "current_script_modified (setModified s) = (\<not> nodeMode s \<or> current_script_modified s)"
  by (auto simp: setModified_def Let_def split: option.splits)

lemma setModified_knob_flag:
  "current_knob_modified (setModified s) =
     (current_knob_modified s \<or>
      (nodeMode s \<and> (\<exists>v. getKnobValue (Some (knob s)) s = Some v \<and> v \<noteq> editor_text s)))"
  by (auto simp: setModified_def Let_def split: option.splits)

lemma setPlainText_fields [simp]:
  "shown (setPlainText t s) = shown s" "node (setPlainText t s) = node s"
  "knob (setPlainText t s) = knob s" "editor_text (setPlainText t s) = t"
  "unsavedKnobs (setPlainText t s) = unsavedKnobs s" "files (setPlainText t s) = files s"
  "nodeMode (setPlainText t s) = nodeMode s"
  "current_folder (setPlainText t s) = current_folder s"
  "current_script (setPlainText t s) = current_script s"
  "scrollPos (setPlainText t s) = scrollPos s" "cursorPos (setPlainText t s) = cursorPos s"
  "state_txt (setPlainText t s) = state_txt s"
  by (simp_all add: setPlainText_def)

lemma loadScriptState_fields [simp]:
  "shown (loadScriptState s) = shown s" "node (loadScriptState s) = node s"
  "knob (loadScriptState s) = knob s" "editor_text (loadScriptState s) = editor_text s"
  "unsavedKnobs (loadScriptState s) = unsavedKnobs s" "files (loadScriptState s) = files s"
  "nodeMode (loadScriptState s) = nodeMode s"
  "current_script_modified (loadScriptState s) = current_script_modified s"
  "current_knob_modified (loadScriptState s) = current_knob_modified s"
  "current_folder (loadScriptState s) = current_folder s"
  "current_script (loadScriptState s) = current_script s"
  "state_txt (loadScriptState s) = state_txt s"
  "editor_scroll (loadScriptState s) = editor_scroll s"
  "editor_cursor (loadScriptState s) = editor_cursor s"
  "splitter_sizes (loadScriptState s) = splitter_sizes s"
  by (simp_all add: loadScriptState_def Let_def split: option.splits)

lemma setScriptState_fields [simp]:
  "shown (setScriptState s) = shown s" "node (setScriptState s) = node s"
  "knob (setScriptState s) = knob s" "editor_text (setScriptState s) = editor_text s"
  "unsavedKnobs (setScriptState s) = unsavedKnobs s" "files (setScriptState s) = files s"
  "nodeMode (setScriptState s) = nodeMode s"
  "current_script_modified (setScriptState s) = current_script_modified s"
  "current_knob_modified (setScriptState s) = current_knob_modified s"
  "current_folder (setScriptState s) = current_folder s"
  "current_script (setScriptState s) = current_script s"
  "state_txt (setScriptState s) = state_txt s"
  by (simp_all add: setScriptState_def Let_def script_fullname_def split: option.splits)

lemma save_positions_fields [simp]:
  "files (saveScrollValue s) = files s" "files (saveCursorPosValue s) = files s"
  "editor_text (saveScrollValue s) = editor_text s" "editor_text (saveCursorPosValue s) = editor_text s"
  "current_script_modified (saveScrollValue s) = current_script_modified s"
  "current_script_modified (saveCursorPosValue s) = current_script_modified s"
  "shown (saveScrollValue s) = shown s" "shown (saveCursorPosValue s) = shown s"
  "current_folder (saveScrollValue s) = current_folder s"
  "current_folder (saveCursorPosValue s) = current_folder s"
  "current_script (saveScrollValue s) = current_script s"
  "current_script (saveCursorPosValue s) = current_script s"
  by (simp_all add: saveScrollValue_def saveCursorPosValue_def)

subsection \<open>Files\<close>

lemma autosave_path_neq [simp]: "autosave_path p \<noteq> p" "p \<noteq> autosave_path p"
  by (cases p; simp add: autosave_path_def)+

lemma isfile_write_file [simp]: "isfile (write_file p c s) q = (q = p \<or> isfile s q)"
  by (auto simp: isfile_def write_file_def update_conv')

lemma isfile_remove_file [simp]: "isfile (remove_file p s) q = (q \<noteq> p \<and> isfile s q)"
  by (auto simp: isfile_def remove_file_def delete_conv')

lemma read_file_write_file [simp]:
  "read_file (write_file p c s) q = (if q = p then c else read_file s q)"
  by (auto simp: read_file_def write_file_def update_conv')

lemma read_file_remove_file [simp]: "q \<noteq> p \<Longrightarrow> read_file (remove_file p s) q = read_file s q"
  by (auto simp: read_file_def remove_file_def delete_conv')

lemma isfile_cong_files: "files s = files t \<Longrightarrow> isfile s p = isfile t p"
  by (simp add: isfile_def)

lemma read_file_cong_files: "files s = files t \<Longrightarrow> read_file s p = read_file t p"
  by (simp add: read_file_def)

lemma write_remove_fields [simp]:
  "editor_text (write_file p c s) = editor_text s" "editor_text (remove_file p s) = editor_text s"
  "current_script_modified (write_file p c s) = current_script_modified s"
  "current_script_modified (remove_file p s) = current_script_modified s"
  "shown (write_file p c s) = shown s" "shown (remove_file p s) = shown s"
  "current_folder (write_file p c s) = current_folder s" "current_folder (remove_file p s) = current_folder s"
  "current_script (write_file p c s) = current_script s" "current_script (remove_file p s) = current_script s"
  "scrollPos (write_file p c s) = scrollPos s" "scrollPos (remove_file p s) = scrollPos s"
  "nodeMode (write_file p c s) = nodeMode s" "nodeMode (remove_file p s) = nodeMode s"
  by (simp_all add: write_file_def remove_file_def)

subsection \<open>Editing, loading and saving a script\<close>

lemma user_edit_fields [simp]:
  "editor_text (user_edit t s) = t" "files (user_edit t s) = files s"
  "nodeMode (user_edit t s) = nodeMode s" "current_folder (user_edit t s) = current_folder s"
  "current_script (user_edit t s) = current_script s" "shown (user_edit t s) = shown s"
  "node (user_edit t s) = node s" "knob (user_edit t s) = knob s"
  by (simp_all add: user_edit_def)

lemma user_edit_script_flag:
  "current_script_modified (user_edit t s) = (\<not> nodeMode s \<or> current_script_modified s)"
  by (simp add: user_edit_def setModified_script_flag)

lemma getKnobValue_cong:
  "node s = node t \<Longrightarrow> knob s = knob t \<Longrightarrow> getKnobValue k s = getKnobValue k t"
  by (simp add: getKnobValue_def Let_def split: option.splits)

lemma user_edit_knob_flag:
  "current_knob_modified (user_edit t s) =
     (current_knob_modified s \<or>
      (nodeMode s \<and> (\<exists>v. getKnobValue (Some (knob s)) s = Some v \<and> v \<noteq> t)))"
  by (simp add: user_edit_def setModified_knob_flag
        getKnobValue_cong [of "s\<lparr>editor_text := t\<rparr>" s])

lemma loadScriptContents_canonical:
  assumes "isfile s (script_path s folder)"
    and "pyOnly \<or> \<not> isfile s (autosave_path (script_path s folder))"
    and "\<not> check \<or> answer = Yes"
  shows "editor_text (loadScriptContents check pyOnly folder answer s) = read_file s (script_path s folder)"
    and "\<not> current_script_modified (loadScriptContents check pyOnly folder answer s)"
    and "read_file (loadScriptContents check pyOnly folder answer s) (script_path s folder)
           = read_file s (script_path s folder)"
    and "isfile (loadScriptContents check pyOnly folder answer s) (script_path s folder)"
    and "current_folder (loadScriptContents check pyOnly folder answer s) = current_folder s"
    and "current_script (loadScriptContents check pyOnly folder answer s) = current_script s"
    and "nodeMode (loadScriptContents check pyOnly folder answer s) = nodeMode s"
  using assms
  by (subst loadScriptContents.simps;
      auto simp: Let_def ask_def isfile_def read_file_def remove_file_def delete_conv')+

lemma saveScriptContents_canonical:
  "\<not> current_script_modified (saveScriptContents False s)"
  "isfile (saveScriptContents False s) (script_path s [])"
  "read_file (saveScriptContents False s) (script_path s []) = editor_text s"
  "editor_text (saveScriptContents False s) = editor_text s"
  "\<not> isfile (saveScriptContents False s) (autosave_path (script_path s []))"
  "current_folder (saveScriptContents False s) = current_folder s"
  "current_script (saveScriptContents False s) = current_script s"
  by (simp_all add: saveScriptContents_def Let_def
        isfile_cong_files [of "saveCursorPosValue _" "write_file _ _ _"]
        isfile_cong_files [of "saveCursorPosValue _" "remove_file _ _"]
        read_file_cong_files [of "saveCursorPosValue _" "write_file _ _ _"]
        read_file_cong_files [of "saveCursorPosValue _" "remove_file _ _"])

lemma ex_reloaded_facts:
  "\<not> current_script_modified ex_reloaded" "editor_text ex_reloaded = ''a''"
  "\<not> nodeMode ex_reloaded" "read_file ex_reloaded (''scripts'', ''a.py'') = ''a''"
proof -
  have p: "script_path ex_script_ks [] = (''scripts'', ''a.py'')"
    by (simp add: script_path_def ex_script_ks_def)
  have f: "isfile ex_script_ks (script_path ex_script_ks [])"
    by (simp add: p) (simp add: isfile_def ex_script_ks_def)
  have r: "read_file ex_script_ks (''scripts'', ''a.py'') = ''a''"
    by (simp add: read_file_def ex_script_ks_def)
  note l = loadScriptContents_canonical [OF f, of True True Yes, simplified, folded ex_reloaded_def]
  show "\<not> current_script_modified ex_reloaded" by (rule l)
  show "editor_text ex_reloaded = ''a''" using l(1) by (simp add: p r)
  show "\<not> nodeMode ex_reloaded" using l(7) by (simp add: ex_script_ks_def)
  show "read_file ex_reloaded (''scripts'', ''a.py'') = ''a''" using l(3) by (simp add: p r)
qed

subsection \<open>Pruning the unsaved knobs\<close>

lemma getKnobValue_unsaved [simp]:
  "getKnobValue k (s\<lparr>unsavedKnobs := x\<rparr>) = getKnobValue k s"
  by (simp add: getKnobValue_def Let_def split: option.splits)

lemma set_delete_subset: "set (AList.delete k al) \<subseteq> set al"
  by (auto simp: AList.delete_eq)

lemma key_not_in_delete: "(k, u) \<notin> set (AList.delete k al)"
  by (auto simp: AList.delete_eq)

lemma prune_unsaved_sound:
  assumes "prune_unsaved ks s = Some s'" and "node s = Some n"
    and "distinct (map fst (unsavedKnobs s))"
  shows "s' = s\<lparr>unsavedKnobs := unsavedKnobs s'\<rparr>
         \<and> set (unsavedKnobs s') \<subseteq> set (unsavedKnobs s)
         \<and> distinct (map fst (unsavedKnobs s'))
         \<and> (\<forall>(k, u) \<in> set (unsavedKnobs s'). k \<in> set ks \<longrightarrow>
               node_knob n k \<noteq> None \<and> (\<exists>v. getKnobValue (Some k) s = Some v \<and> v \<noteq> u))"
  using assms
proof (induction ks arbitrary: s)
  case Nil
  then show ?case by simp
next
  case (Cons k rest)
  from Cons.prems obtain u where u: "map_of (unsavedKnobs s) k = Some u"
    by (auto split: option.splits)
  let ?d = "s\<lparr>unsavedKnobs := AList.delete k (unsavedKnobs s)\<rparr>"
  have dd: "distinct (map fst (unsavedKnobs ?d))" "node ?d = Some n"
    using Cons.prems by (simp_all add: distinct_delete)
  show ?case
  proof (cases "prune_unsaved (k # rest) s = prune_unsaved rest ?d")
    case True
    with Cons.prems have p: "prune_unsaved rest ?d = Some s'" by simp
    from Cons.IH [OF p dd(2) dd(1)]
    have ih: "s' = ?d\<lparr>unsavedKnobs := unsavedKnobs s'\<rparr>"
      "set (unsavedKnobs s') \<subseteq> set (AList.delete k (unsavedKnobs s))"
      "distinct (map fst (unsavedKnobs s'))"
      "\<forall>(k', u') \<in> set (unsavedKnobs s'). k' \<in> set rest \<longrightarrow>
          node_knob n k' \<noteq> None \<and> (\<exists>v. getKnobValue (Some k') s = Some v \<and> v \<noteq> u')"
      by simp_all
    have "s' = s\<lparr>unsavedKnobs := unsavedKnobs s'\<rparr>" using ih(1) by simp
    moreover have "set (unsavedKnobs s') \<subseteq> set (unsavedKnobs s)"
      using ih(2) set_delete_subset by fast
    moreover have "\<forall>(k', u') \<in> set (unsavedKnobs s'). k' \<in> set (k # rest) \<longrightarrow>
          node_knob n k' \<noteq> None \<and> (\<exists>v. getKnobValue (Some k') s = Some v \<and> v \<noteq> u')"
      using ih(2) ih(4) key_not_in_delete by fastforce
    ultimately show ?thesis using ih(3) by blast
  next
    case False
    with Cons.prems u obtain kb v where
      kv: "node_knob n k = Some kb" "getKnobValue (Some k) s = Some v" "v \<noteq> u"
      and p: "prune_unsaved rest s = Some s'"
      by (auto split: option.splits if_splits)
    from Cons.IH [OF p Cons.prems(2) Cons.prems(3)]
    have ih: "s' = s\<lparr>unsavedKnobs := unsavedKnobs s'\<rparr>"
      "set (unsavedKnobs s') \<subseteq> set (unsavedKnobs s)"
      "distinct (map fst (unsavedKnobs s'))"
      "\<forall>(k', u') \<in> set (unsavedKnobs s'). k' \<in> set rest \<longrightarrow>
          node_knob n k' \<noteq> None \<and> (\<exists>v. getKnobValue (Some k') s = Some v \<and> v \<noteq> u')"
      by simp_all
    have "\<And>u'. (k, u') \<in> set (unsavedKnobs s') \<Longrightarrow> u' = u"
      using ih(2) u Cons.prems(3) by (auto dest: eq_key_imp_eq_value)
    with kv ih(4) have "\<forall>(k', u') \<in> set (unsavedKnobs s'). k' \<in> set (k # rest) \<longrightarrow>
          node_knob n k' \<noteq> None \<and> (\<exists>v. getKnobValue (Some k') s = Some v \<and> v \<noteq> u')"
      by fastforce
    with ih show ?thesis by blast
  qed
qed

lemma prune_unsaved_returns:
  assumes "node s = Some n" and "node_knob n [] = None"
    and "distinct ks" and "set ks \<subseteq> fst ` set (unsavedKnobs s)"
  shows "prune_unsaved ks s \<noteq> None"
  using assms
proof (induction ks arbitrary: s)
  case Nil
  then show ?case by simp
next
  case (Cons k rest)
  from Cons.prems obtain u where u: "map_of (unsavedKnobs s) k = Some u"
    by (cases "map_of (unsavedKnobs s) k") (auto simp: map_of_eq_None_iff)
  let ?d = "s\<lparr>unsavedKnobs := AList.delete k (unsavedKnobs s)\<rparr>"
  have sub: "set rest \<subseteq> fst ` set (unsavedKnobs ?d)"
  proof
    fix x assume x: "x \<in> set rest"
    with Cons.prems(3) have "x \<noteq> k" by auto
    moreover from x Cons.prems(4) obtain b where "(x, b) \<in> set (unsavedKnobs s)" by force
    ultimately have "(x, b) \<in> set (AList.delete k (unsavedKnobs s))"
      by (auto simp: AList.delete_eq)
    then show "x \<in> fst ` set (unsavedKnobs ?d)" by force
  qed
  have d: "prune_unsaved rest ?d \<noteq> None"
    using Cons.IH [of ?d] Cons.prems sub by simp
  have k: "prune_unsaved rest s \<noteq> None"
    using Cons.IH [of s] Cons.prems by simp
  have g: "node_knob n k \<noteq> None \<Longrightarrow> getKnobValue (Some k) s \<noteq> None"
    using Cons.prems(1,2) by (cases "k = []") (auto simp: getKnobValue_def)
  show ?case
  proof (cases "node_knob n k")
    case None
    then show ?thesis using u d Cons.prems(1) by simp
  next
    case (Some kb)
    with g obtain v where "getKnobValue (Some k) s = Some v" by auto
    then show ?thesis using Some u d k Cons.prems(1) by simp
  qed
qed

lemma mark_knobs_fields [simp]:
  "unsavedKnobs (mark_knobs ks s) = unsavedKnobs s" "node (mark_knobs ks s) = node s"
  "knob (mark_knobs ks s) = knob s" "editor_text (mark_knobs ks s) = editor_text s"
  "files (mark_knobs ks s) = files s" "shown (mark_knobs ks s) = shown s"
  unfolding mark_knobs_def by (induction ks arbitrary: s; simp)+

subsection \<open>The scripts drop-down and deletion\<close>

lemma item_datas_simps [simp]:
  "item_datas (combo_clear c) = []"
  "item_datas (addItem t d c) = item_datas c @ [d]"
  "item_datas (script_item T f g c) = item_datas c @ [g]"
  by (simp_all add: item_datas_def combo_clear_def addItem_def script_item_def)

lemma concat_map_take_drop: "concat (map f (take j xs)) @ concat (map f (drop j xs)) = concat (map f xs)"
  by (metis append_take_drop_id concat_append map_append)

lemma item_datas_insertSeparator [simp]: "item_datas (insertSeparator i c) = item_datas c"
  by (simp add: item_datas_def insertSeparator_def Let_def concat_map_take_drop)

lemma fold_found_scripts:
  "item_datas (fst (fold (\<lambda>f p. if P f then (fst p, snd p)
                                  else (script_item T f (g f) (fst p), snd p + (1::int))) xs acc))
     = item_datas (fst acc) @ map g (filter (\<lambda>f. \<not> P f) xs)"
  by (induction xs arbitrary: acc) auto

lemma updateScriptsDropdown_datas:
  "item_datas (current_script_dropdown (updateScriptsDropdown s)) =
     (let dir_list = listdir s (current_folder s);
          found_scripts = sort (filter (\<lambda>f. endswith f ''.py'') dir_list);
          found_temp_scripts = filter (\<lambda>f. endswith f ''.py.autosave'') dir_list
      in (if found_scripts = [] then [''Untitled.py'']
          else (if ''Untitled.py.autosave'' \<in> set found_temp_scripts \<or> ''Untitled.py'' \<in> set found_scripts
                then [''Untitled.py''] else [])
               @ map (split_last (CHR ''/'')) (filter (\<lambda>f. f \<noteq> ''Untitled.py'') found_scripts))
         @ [''create new'', ''create duplicate'', ''delete script'', ''open in browser''])"
  by (simp add: updateScriptsDropdown_def Let_def defaultScripts_def fold_found_scripts
        case_prod_unfold)

lemma remove_if_file: "(if isfile s p then remove_file p s else s) = remove_file p s"
  by (auto simp: isfile_def remove_file_def map_of_eq_None_iff)

lemma deleteScript_confirmed:
  assumes "\<not> check \<or> answer = Yes"
  shows "fst (deleteScript check folder answer s)"
    and "files (snd (deleteScript check folder answer s))
           = AList.delete (script_path s folder) (AList.delete (autosave_path (script_path s folder)) (files s))"
    and "current_folder (snd (deleteScript check folder answer s)) = current_folder s"
    and "current_script (snd (deleteScript check folder answer s)) = current_script s"
  using assms
  by (auto simp: deleteScript_def Let_def remove_if_file remove_file_def ask_def)

lemma split_last_id: "c \<notin> set s \<Longrightarrow> split_last c s = s"
proof -
  assume "c \<notin> set s"
  then have "takeWhile (\<lambda>x. x \<noteq> c) (rev s) = rev s" by (intro takeWhile_eq_all_conv [THEN iffD2]) auto
  then show ?thesis unfolding split_last_def by (simp only: rev_rev_ident)
qed

lemma sentinel_not_py:
  "endswith n ''.py'' \<Longrightarrow> n \<notin> set [''create new'', ''create duplicate'', ''delete script'', ''open in browser'']"
  by (auto simp: endswith_def suffix_to_prefix)


lemma sort_eq_Nil [simp]: "sort xs = [] \<longleftrightarrow> xs = []" for xs :: "string list"
  by (metis length_sort length_0_conv)

lemma listdir_deleted:
  assumes "files s' = AList.delete p (AList.delete (autosave_path p) (files s))"
    and "fst p = folder"
  shows "snd p \<notin> set (listdir s' folder)"
    and "snd p @ ''.autosave'' \<notin> set (listdir s' folder)"
    and "set (listdir s' folder) \<subseteq> set (listdir s folder)"
  using assms by (auto simp: listdir_def AList.delete_eq autosave_path_def)

subsection \<open>Writing a text and reading it back\<close>

lemma nuke_tcl_command:
  "nuke_tcl (tcl_knob_command (node_name n) t) n =
     (case tcl_dquote (tcl_escape t @ [dquote]) of
        Some (v, []) \<Rightarrow> if node_knob n ''kernelSource'' = None then None
                        else Some (knob_setValue ''kernelSource'' v n)
      | _ \<Rightarrow> None)"
  by (simp add: nuke_tcl_def tcl_knob_command_def Let_def)

lemma node_knob_setValue:
  "node_knob (knob_setValue k v n) k' =
     (if k' = k then map_option (\<lambda>kb. kb\<lparr>knob_text := v\<rparr>) (node_knob n k) else node_knob n k')"
  by (auto simp: knob_setValue_def node_knob_def update_conv' split: option.splits)

lemma node_Class_setValue [simp]: "node_Class (knob_setValue k v n) = node_Class n"
  by (simp add: knob_setValue_def split: option.splits)

lemma roundtrip_file:
  "editor_text (loadScriptContents False pyOnly [] answer (saveScriptContents False s)) = editor_text s
   \<and> read_file (saveScriptContents False s) (script_path s []) = editor_text s"
proof -
  let ?t = "saveScriptContents False s"
  have p: "script_path ?t [] = script_path s []"
    by (simp add: script_path_def saveScriptContents_canonical)
  have 1: "isfile ?t (script_path ?t [])" by (simp add: p saveScriptContents_canonical)
  have 2: "pyOnly \<or> \<not> isfile ?t (autosave_path (script_path ?t []))"
    by (simp add: p saveScriptContents_canonical)
  from loadScriptContents_canonical(1) [OF 1 2, of False answer]
  show ?thesis by (simp add: p saveScriptContents_canonical)
qed

lemma roundtrip_python_knob:
  assumes "itemData (current_knob_dropdown s) (combo_index (current_knob_dropdown s)) = Some dv"
    and "node s = Some n" and "node_knob n dv = Some kb" and "dv \<noteq> []"
    and "\<not> (dv = ''kernelSource'' \<and> node_Class n = ''BlinkScript'')"
  shows "fst (saveKnobValue False answer s) = Returned
         \<and> getKnobValue (Some dv) (snd (saveKnobValue False answer s)) = Some (editor_text s)"
proof -
  have g: "getKnobValue (Some dv) s = Some (knob_text kb)"
    using assms by (simp add: getKnobValue_def)
  have s: "saveKnobValue False answer s =
      (Returned, (let s3 = setKnobModified False dv True
                     (s\<lparr>knob := dv, node := Some (knob_setValue dv (editor_text s) n)\<rparr>);
                      s4 = s3\<lparr>root_modified := True\<rparr>
                  in if map_of (unsavedKnobs s4) (knob s4) \<noteq> None
                     then s4\<lparr>unsavedKnobs := AList.delete (knob s4) (unsavedKnobs s4)\<rparr> else s4))"
    using assms g by (auto simp: saveKnobValue_def Let_def simp del: setKnobModified_fields)
  show ?thesis
    using assms(3,4) by (simp add: s Let_def getKnobValue_def node_knob_setValue)
qed

lemma tcl_escape_Cons:
  "tcl_escape (x # xs) =
     (if x = dquote then [backslash, dquote]
      else if x = CHR ''['' then [backslash, CHR ''['']
      else [x]) @ tcl_escape xs"
  by (simp add: tcl_escape_def dquote_def backslash_def)

lemma tcl_escape_Nil [simp]: "tcl_escape [] = []"
  by (simp add: tcl_escape_def)

lemma tcl_dquote_plain:
  assumes "backslash \<notin> set t" and "CHR ''$'' \<notin> set t"
  shows "tcl_dquote (tcl_escape t @ [dquote]) = Some (t, [])"
  using assms
proof (induction t)
  case Nil
  then show ?case by simp
next
  case (Cons x xs)
  have ne: "tcl_escape xs @ [dquote] \<noteq> []" by simp
  then obtain d cs where dcs: "tcl_escape xs @ [dquote] = d # cs" by (cases "tcl_escape xs @ [dquote]") auto
  have ih: "tcl_dquote (d # cs) = Some (xs, [])" using Cons by (simp add: dcs [symmetric])
  have k: "\<not> tcl_numeric_escape dquote" "tcl_control dquote = None"
    "\<not> tcl_numeric_escape (CHR ''['')" "tcl_control (CHR ''['') = None"
    "backslash \<noteq> dquote" "CHR ''['' \<noteq> dquote" "CHR ''['' \<noteq> backslash"
    by (simp_all add: tcl_numeric_escape_def tcl_control_def dquote_def backslash_def)
  show ?case
    using Cons.prems ih k by (auto simp: tcl_escape_Cons dcs)
qed

lemma roundtrip_blink_plain:
  assumes "itemData (current_knob_dropdown s) (combo_index (current_knob_dropdown s)) = Some ''kernelSource''"
    and "node s = Some n" and "node_knob n ''kernelSource'' = Some kb"
    and "node_Class n = ''BlinkScript''"
    and "backslash \<notin> set (editor_text s)" and "CHR ''$'' \<notin> set (editor_text s)"
  shows "fst (saveKnobValue False answer s) = Returned
         \<and> getKnobValue (Some ''kernelSource'') (snd (saveKnobValue False answer s)) = Some (editor_text s)"
proof -
  have g: "getKnobValue (Some ''kernelSource'') s = Some (knob_text kb)"
    using assms by (simp add: getKnobValue_def)
  have t: "nuke_tcl (tcl_knob_command (node_name n) (editor_text s)) n
           = Some (knob_setValue ''kernelSource'' (editor_text s) n)"
    using assms(3) by (simp add: nuke_tcl_command tcl_dquote_plain [OF assms(5,6)])
  have s: "saveKnobValue False answer s =
      (Returned, (let s3 = setKnobModified False ''kernelSource'' True
                     (s\<lparr>knob := ''kernelSource'',
                        node := Some (knob_setValue ''kernelSource'' (editor_text s) n)\<rparr>);
                      s4 = s3\<lparr>root_modified := True\<rparr>
                  in if map_of (unsavedKnobs s4) (knob s4) \<noteq> None
                     then s4\<lparr>unsavedKnobs := AList.delete (knob s4) (unsavedKnobs s4)\<rparr> else s4))"
    using assms(1,2,4) g t by (auto simp: saveKnobValue_def Let_def simp del: setKnobModified_fields)
  show ?thesis
    using assms(3,4) by (simp add: s Let_def getKnobValue_def node_knob_setValue)
qed

subsection \<open>Loading and saving: the flag afterwards\<close>

lemma ask_fields [simp]:
  "node (ask d s) = node s" "knob (ask d s) = knob s" "editor_text (ask d s) = editor_text s"
  "unsavedKnobs (ask d s) = unsavedKnobs s" "current_knob_modified (ask d s) = current_knob_modified s"
  "current_knob_dropdown (ask d s) = current_knob_dropdown s" "scrollPos (ask d s) = scrollPos s"
  by (simp_all add: ask_def)

lemma saveKnobValue_written:
  assumes "\<not> check \<or> answer = Yes" and "fst (saveKnobValue check answer s) = Returned"
  shows "\<not> current_knob_modified (snd (saveKnobValue check answer s))"
    and "editor_text (snd (saveKnobValue check answer s)) = editor_text s"
  using assms
  by (auto simp: saveKnobValue_def Let_def split: option.splits if_splits)

lemma saveKnobValue_setValue:
  assumes "itemData (current_knob_dropdown s) (combo_index (current_knob_dropdown s)) = Some dv"
    and "node s = Some n" and "dv \<noteq> []"
    and "\<not> (dv = ''kernelSource'' \<and> node_Class n = ''BlinkScript'')"
    and "\<not> check \<or> answer = Yes" and "fst (saveKnobValue check answer s) = Returned"
  shows "getKnobValue (Some dv) (snd (saveKnobValue check answer s)) = Some (editor_text s)"
  using assms
  by (auto simp: saveKnobValue_def Let_def getKnobValue_def node_knob_setValue
           split: option.splits if_splits)

lemma loadKnobValue_switch:
  assumes "toLoadKnob s" and "node s = Some n"
    and "itemData (current_knob_dropdown s) (combo_index (current_knob_dropdown s)) = Some dv"
    and "knobLanguage n dv \<noteq> None"
    and "\<not> check \<or> answer = Yes"
  shows "fst (loadKnobValue check True answer s) = Returned"
    and "knob (snd (loadKnobValue check True answer s)) = dv"
    and "\<exists>v. getKnobValue (Some dv) (snd (loadKnobValue check True answer s)) = Some v
             \<and> (current_knob_modified (snd (loadKnobValue check True answer s))
                  \<longleftrightarrow> editor_text (snd (loadKnobValue check True answer s)) \<noteq> v)"
proof -
  from assms(4) obtain lang kb where l: "knobLanguage n dv = Some lang" and kb: "node_knob n dv = Some kb"
    by (auto simp: knobLanguage_def split: option.splits)
  have g: "getKnobValue (Some dv) t = Some (knob_text kb)" if "node t = Some n" "knob t = dv" for t
    using that kb by (auto simp: getKnobValue_def)
  show "fst (loadKnobValue check True answer s) = Returned"
    using assms l kb by (subst loadKnobValue.simps) (auto simp: Let_def)
  show "knob (snd (loadKnobValue check True answer s)) = dv"
    using assms l kb by (subst loadKnobValue.simps) (auto simp: Let_def split: option.splits)
  have n': "node (snd (loadKnobValue check True answer s)) = Some n"
    using assms l kb by (subst loadKnobValue.simps) (auto simp: Let_def split: option.splits)
  have k': "knob (snd (loadKnobValue check True answer s)) = dv" by fact
  have "current_knob_modified (snd (loadKnobValue check True answer s))
          \<longleftrightarrow> editor_text (snd (loadKnobValue check True answer s)) \<noteq> knob_text kb"
    using assms l kb by (subst (1 2) loadKnobValue.simps) (auto simp: Let_def split: option.splits)
  then show "\<exists>v. getKnobValue (Some dv) (snd (loadKnobValue check True answer s)) = Some v
             \<and> (current_knob_modified (snd (loadKnobValue check True answer s))
                  \<longleftrightarrow> editor_text (snd (loadKnobValue check True answer s)) \<noteq> v)"
    using g [OF n' k'] by simp
qed

lemma loadKnobValue_reload:
  \<comment> \<open>the reload button in node mode: the buffer becomes the knob's value, the flag stays\<close>
  assumes "toLoadKnob s" and "node s = Some n"
    and "itemData (current_knob_dropdown s) (combo_index (current_knob_dropdown s)) = Some dv"
    and "knobLanguage n dv \<noteq> None" and "node_knob n dv = Some kb"
    and "\<not> check \<or> answer = Yes"
  shows "editor_text (snd (loadKnobValue check False answer s)) = knob_text kb"
    and "current_knob_modified (snd (loadKnobValue check False answer s)) = current_knob_modified s"
  using assms
  by (subst loadKnobValue.simps; auto simp: Let_def split: option.splits)+

lemma updateScriptsDropdown_fields [simp]:
  "files (updateScriptsDropdown s) = files s" "editor_text (updateScriptsDropdown s) = editor_text s"
  "current_folder (updateScriptsDropdown s) = current_folder s"
  "current_script_modified (updateScriptsDropdown s) = current_script_modified s"
  "shown (updateScriptsDropdown s) = shown s" "nodeMode (updateScriptsDropdown s) = nodeMode s"
  by (simp_all add: updateScriptsDropdown_def Let_def)

lemma load_branch_autosave:
  assumes "isfile s (autosave_path (script_path s folder))" and "\<not> pyOnly"
  shows "loadScriptContents check pyOnly folder answer s =
     (setScriptModified True (setPlainText (read_file s (autosave_path (script_path s folder))) s))
       \<lparr>editor_scroll := (case scrollPos s (script_fullname s) of Some v \<Rightarrow> v | None \<Rightarrow> 0),
        windowTitle := ''KnobScripter - '' @ current_folder s @ ''/'' @ current_script s\<rparr>"
  using assms by (subst loadScriptContents.simps) (simp add: Let_def)

lemma load_branch_empty:
  assumes "\<not> isfile s (autosave_path (script_path s folder))" and "\<not> isfile s (script_path s folder)"
  shows "loadScriptContents check pyOnly folder answer s =
     (setScriptModified False (setPlainText [] s))
       \<lparr>scrollPos := (scrollPos s)(script_fullname s := None),
        cursorPos := (cursorPos s)(script_fullname s := None),
        windowTitle := ''KnobScripter - '' @ current_folder s @ ''/'' @ current_script s\<rparr>"
  using assms by (subst loadScriptContents.simps) (simp add: Let_def script_fullname_def)


lemma load_branch_clear:
  assumes "pyOnly" and "\<not> isfile s (script_path s folder)"
    and "isfile s (autosave_path (script_path s folder))" and "answer = Yes"
  shows "loadScriptContents check pyOnly folder answer s =
     (let s4 = loadScriptContents False False [] answer
                 (updateScriptsDropdown
                   (setPlainText [] (remove_file (autosave_path (script_path s folder)) (ask AskClearEditor s))));
          s5 = setScriptState (loadScriptState s4)
      in s5\<lparr>windowTitle := ''KnobScripter - '' @ current_folder s5 @ ''/'' @ current_script s5\<rparr>)"
  using assms
  by (subst loadScriptContents.simps) (simp add: Let_def isfile_cong_files [of "ask _ _" s] ask_def)

lemma loadScriptContents_canonical_no_autosave:
  assumes "isfile s (script_path s folder)"
    and "pyOnly \<or> \<not> isfile s (autosave_path (script_path s folder))"
    and "\<not> check \<or> answer = Yes"
  shows "\<not> isfile (loadScriptContents check pyOnly folder answer s) (autosave_path (script_path s folder))"
  using assms
  by (subst loadScriptContents.simps)
     (auto simp: Let_def ask_def isfile_def remove_file_def delete_conv')

lemma loadScriptContents_result:
  assumes "answer = Yes"
  shows "(current_script_modified (loadScriptContents check pyOnly [] answer s)
            \<longleftrightarrow> isfile (loadScriptContents check pyOnly [] answer s)
                  (autosave_path (script_path (loadScriptContents check pyOnly [] answer s) [])))
       \<and> editor_text (loadScriptContents check pyOnly [] answer s)
           = (if isfile (loadScriptContents check pyOnly [] answer s)
                   (autosave_path (script_path (loadScriptContents check pyOnly [] answer s) []))
              then read_file (loadScriptContents check pyOnly [] answer s)
                   (autosave_path (script_path (loadScriptContents check pyOnly [] answer s) []))
              else if isfile (loadScriptContents check pyOnly [] answer s)
                   (script_path (loadScriptContents check pyOnly [] answer s) [])
              then read_file (loadScriptContents check pyOnly [] answer s)
                   (script_path (loadScriptContents check pyOnly [] answer s) [])
              else [])"
proof -
  define post where "post = (\<lambda>t.
     (current_script_modified t \<longleftrightarrow> isfile t (autosave_path (script_path t [])))
     \<and> editor_text t =
         (if isfile t (autosave_path (script_path t [])) then read_file t (autosave_path (script_path t []))
          else if isfile t (script_path t []) then read_file t (script_path t [])
          else []))"
  have post_cong: "post t = post u"
    if "files t = files u" "current_folder t = current_folder u" "current_script t = current_script u"
      "current_script_modified t = current_script_modified u" "editor_text t = editor_text u" for t u
    using that by (simp add: post_def isfile_def read_file_def script_path_def)
  have autosave: "post (loadScriptContents c po [] a u)"
    if h: "isfile u (autosave_path (script_path u []))" "\<not> po" for c po a u
  proof -
    let ?L = "loadScriptContents c po [] a u"
    note e = load_branch_autosave [OF h, of c a]
    have f: "files ?L = files u" "current_folder ?L = current_folder u" "current_script ?L = current_script u"
      "current_script_modified ?L" "editor_text ?L = read_file u (autosave_path (script_path u []))"
      by (simp_all add: e)
    have p: "script_path ?L [] = script_path u []" by (simp add: script_path_def f)
    show ?thesis
      using h(1) by (simp add: post_def p f isfile_cong_files [OF f(1)] read_file_cong_files [OF f(1)])
  qed
  have canonical: "post (loadScriptContents c po [] a u)"
    if h: "isfile u (script_path u [])" "po \<or> \<not> isfile u (autosave_path (script_path u []))"
      "\<not> c \<or> a = Yes" for c po a u
  proof -
    let ?L = "loadScriptContents c po [] a u"
    note k = loadScriptContents_canonical [OF h]
    note n = loadScriptContents_canonical_no_autosave [OF h]
    have p: "script_path ?L [] = script_path u []" by (simp add: script_path_def k)
    show ?thesis using k n by (simp add: post_def p)
  qed
  have empty: "post (loadScriptContents c po [] a u)"
    if h: "\<not> isfile u (autosave_path (script_path u []))" "\<not> isfile u (script_path u [])" for c po a u
  proof -
    let ?L = "loadScriptContents c po [] a u"
    note e = load_branch_empty [OF h, of c po a]
    have f: "files ?L = files u" "current_folder ?L = current_folder u" "current_script ?L = current_script u"
      "\<not> current_script_modified ?L" "editor_text ?L = []"
      by (simp_all add: e)
    have p: "script_path ?L [] = script_path u []" by (simp add: script_path_def f)
    show ?thesis
      using h by (simp add: post_def p f isfile_cong_files [OF f(1)])
  qed
  have direct: "post (loadScriptContents False False [] a u)" for a u
    using autosave [of u False False a] canonical [of u False False a] empty [of u False False a]
    by blast
  let ?p = "script_path s []"
  let ?L = "loadScriptContents check pyOnly [] answer s"
  have a: "\<not> check \<or> answer = Yes" using assms by simp
  consider (d) "isfile s (autosave_path ?p)" "\<not> pyOnly"
    | (b) "isfile s ?p" "pyOnly \<or> \<not> isfile s (autosave_path ?p)"
    | (k) "pyOnly" "\<not> isfile s ?p" "isfile s (autosave_path ?p)"
    | (c) "\<not> isfile s ?p" "\<not> isfile s (autosave_path ?p)" by blast
  then have "post ?L"
  proof cases
    case d
    then show ?thesis by (rule autosave)
  next
    case b
    then show ?thesis using a by (rule canonical)
  next
    case k
    let ?s4 = "loadScriptContents False False [] answer
                 (updateScriptsDropdown
                   (setPlainText [] (remove_file (autosave_path ?p) (ask AskClearEditor s))))"
    have e: "?L = (let s5 = setScriptState (loadScriptState ?s4)
                   in s5\<lparr>windowTitle := ''KnobScripter - '' @ current_folder s5 @ ''/'' @ current_script s5\<rparr>)"
      using load_branch_clear [OF k(1) k(2) k(3) assms, of check] by (simp add: Let_def)
    have "post ?s4" by (rule direct)
    moreover have "post ?L = post ?s4"
      by (rule post_cong) (simp_all add: e Let_def)
    ultimately show ?thesis by simp
  next
    case c
    show ?thesis by (rule empty [OF c(2) c(1)])
  qed
  then show ?thesis by (simp add: post_def)
qed

section \<open>The claims\<close>

subsection \<open>C1: the modified flag\<close>

text \<open>
  C1 (as stated): for every open document the dirty flag equals (buffer differs from the
  last-known backing value) after every buffer mutation, load and save; after the buffer is
  forced back to the backing value the flag is false, and after a following one-character
  mutation it is true.

  The widget keeps no last-known backing value, and its change slot \<^verbatim>\<open>setModified\<close> only
  ever sets the flag. The trace below reloads \<^verbatim>\<open>scripts/a.py\<close> (flag cleared, buffer
  \<^verbatim>\<open>a\<close>), types a \<^verbatim>\<open>b\<close> and deletes it again: the buffer equals the file, and the flag is set.
\<close>

theorem modified_flag_sticky:
  "\<not> current_script_modified ex_reloaded
   \<and> editor_text ex_reloaded = ''a''
   \<and> read_file ex_reloaded (''scripts'', ''a.py'') = ''a''
   \<and> current_script_modified ex_edited_back
   \<and> editor_text ex_edited_back = ''a''
   \<and> read_file ex_edited_back (''scripts'', ''a.py'') = ''a''"
  by (simp add: ex_reloaded_facts ex_edited_back_def user_edit_script_flag
        read_file_cong_files [of "user_edit _ _" ex_reloaded])

text \<open>
  C1 (amended): the flag is re-established by loads and saves, and a buffer mutation can only
  raise it; it is not recomputed against the backing value after a mutation.
  \<^item> Mutation: in script mode every buffer mutation sets the script's flag; in node mode a
    mutation sets the knob's flag when the buffer then differs from the knob's current value;
    no mutation clears either flag.
  \<^item> Script load: after a completed load from the current folder the flag is set exactly when
    an autosave file of the script is present, and the buffer is the content of that file, else
    of the canonical file, else empty; in particular a reload of the canonical file (unchecked
    or confirmed) clears the flag and leaves the buffer equal to the file.
  \<^item> Script save to the canonical file clears the flag and leaves the file equal to the buffer.
  \<^item> Knob load on a switch in the drop-down (\<^verbatim>\<open>loadKnobValue\<close> with \<^verbatim>\<open>updateDict=True\<close>,
    unchecked or confirmed): afterwards the flag equals (buffer differs from the knob's value).
  \<^item> Knob save (\<^verbatim>\<open>saveKnobValue\<close>, unchecked or confirmed, returning after the write) clears
    the flag and keeps the buffer; a knob written with \<^verbatim>\<open>setValue\<close> then holds the buffer.
\<close>

theorem modified_flag_rules:
  "(\<not> nodeMode s \<longrightarrow> current_script_modified (user_edit t s))
   \<and> (current_script_modified s \<longrightarrow> current_script_modified (user_edit t s))
   \<and> (current_knob_modified (user_edit t s) \<longleftrightarrow>
        current_knob_modified s
        \<or> (nodeMode s \<and> (\<exists>v. getKnobValue (Some (knob s)) s = Some v \<and> v \<noteq> t)))
   \<and> (isfile s (script_path s folder) \<and> (\<not> check \<or> answer = Yes) \<longrightarrow>
        \<not> current_script_modified (loadScriptContents check True folder answer s)
        \<and> editor_text (loadScriptContents check True folder answer s) = read_file s (script_path s folder)
        \<and> read_file (loadScriptContents check True folder answer s) (script_path s folder)
            = read_file s (script_path s folder))
   \<and> \<not> current_script_modified (saveScriptContents False s)
   \<and> read_file (saveScriptContents False s) (script_path s []) = editor_text (saveScriptContents False s)
   \<and> (answer = Yes \<longrightarrow>
        (current_script_modified (loadScriptContents check pyOnly [] answer s)
           \<longleftrightarrow> isfile (loadScriptContents check pyOnly [] answer s)
                 (autosave_path (script_path (loadScriptContents check pyOnly [] answer s) [])))
        \<and> editor_text (loadScriptContents check pyOnly [] answer s)
            = (if isfile (loadScriptContents check pyOnly [] answer s)
                    (autosave_path (script_path (loadScriptContents check pyOnly [] answer s) []))
               then read_file (loadScriptContents check pyOnly [] answer s)
                    (autosave_path (script_path (loadScriptContents check pyOnly [] answer s) []))
               else if isfile (loadScriptContents check pyOnly [] answer s)
                    (script_path (loadScriptContents check pyOnly [] answer s) [])
               then read_file (loadScriptContents check pyOnly [] answer s)
                    (script_path (loadScriptContents check pyOnly [] answer s) [])
               else []))
   \<and> (toLoadKnob s \<and> node s = Some n
        \<and> itemData (current_knob_dropdown s) (combo_index (current_knob_dropdown s)) = Some dv
        \<and> knobLanguage n dv \<noteq> None \<and> (\<not> check \<or> answer = Yes) \<longrightarrow>
        fst (loadKnobValue check True answer s) = Returned
        \<and> knob (snd (loadKnobValue check True answer s)) = dv
        \<and> (\<exists>v. getKnobValue (Some dv) (snd (loadKnobValue check True answer s)) = Some v
               \<and> (current_knob_modified (snd (loadKnobValue check True answer s))
                    \<longleftrightarrow> editor_text (snd (loadKnobValue check True answer s)) \<noteq> v)))
   \<and> ((\<not> check \<or> answer = Yes) \<and> fst (saveKnobValue check answer s) = Returned \<longrightarrow>
        \<not> current_knob_modified (snd (saveKnobValue check answer s))
        \<and> editor_text (snd (saveKnobValue check answer s)) = editor_text s)
   \<and> (itemData (current_knob_dropdown s) (combo_index (current_knob_dropdown s)) = Some dv
        \<and> node s = Some n \<and> dv \<noteq> []
        \<and> \<not> (dv = ''kernelSource'' \<and> node_Class n = ''BlinkScript'')
        \<and> (\<not> check \<or> answer = Yes) \<and> fst (saveKnobValue check answer s) = Returned \<longrightarrow>
        getKnobValue (Some dv) (snd (saveKnobValue check answer s)) = Some (editor_text s))"
proof -
  have edit: "(\<not> nodeMode s \<longrightarrow> current_script_modified (user_edit t s))
     \<and> (current_script_modified s \<longrightarrow> current_script_modified (user_edit t s))
     \<and> (current_knob_modified (user_edit t s) \<longleftrightarrow>
          current_knob_modified s
          \<or> (nodeMode s \<and> (\<exists>v. getKnobValue (Some (knob s)) s = Some v \<and> v \<noteq> t)))"
    by (auto simp: user_edit_script_flag user_edit_knob_flag)
  have reload: "isfile s (script_path s folder) \<and> (\<not> check \<or> answer = Yes) \<longrightarrow>
        \<not> current_script_modified (loadScriptContents check True folder answer s)
        \<and> editor_text (loadScriptContents check True folder answer s) = read_file s (script_path s folder)
        \<and> read_file (loadScriptContents check True folder answer s) (script_path s folder)
            = read_file s (script_path s folder)"
    using loadScriptContents_canonical [of s folder True check answer] by blast
  have save: "\<not> current_script_modified (saveScriptContents False s)
     \<and> read_file (saveScriptContents False s) (script_path s []) = editor_text (saveScriptContents False s)"
    by (simp add: saveScriptContents_canonical)
  note load = loadScriptContents_result [of answer check pyOnly s]
  have kload: "toLoadKnob s \<and> node s = Some n
        \<and> itemData (current_knob_dropdown s) (combo_index (current_knob_dropdown s)) = Some dv
        \<and> knobLanguage n dv \<noteq> None \<and> (\<not> check \<or> answer = Yes) \<longrightarrow>
        fst (loadKnobValue check True answer s) = Returned
        \<and> knob (snd (loadKnobValue check True answer s)) = dv
        \<and> (\<exists>v. getKnobValue (Some dv) (snd (loadKnobValue check True answer s)) = Some v
               \<and> (current_knob_modified (snd (loadKnobValue check True answer s))
                    \<longleftrightarrow> editor_text (snd (loadKnobValue check True answer s)) \<noteq> v))"
    using loadKnobValue_switch [of s n dv check answer] by blast
  have ksave: "(\<not> check \<or> answer = Yes) \<and> fst (saveKnobValue check answer s) = Returned \<longrightarrow>
        \<not> current_knob_modified (snd (saveKnobValue check answer s))
        \<and> editor_text (snd (saveKnobValue check answer s)) = editor_text s"
    using saveKnobValue_written [of check answer s] by blast
  have kvalue: "itemData (current_knob_dropdown s) (combo_index (current_knob_dropdown s)) = Some dv
        \<and> node s = Some n \<and> dv \<noteq> []
        \<and> \<not> (dv = ''kernelSource'' \<and> node_Class n = ''BlinkScript'')
        \<and> (\<not> check \<or> answer = Yes) \<and> fst (saveKnobValue check answer s) = Returned \<longrightarrow>
        getKnobValue (Some dv) (snd (saveKnobValue check answer s)) = Some (editor_text s)"
    using saveKnobValue_setValue [of s dv n check answer] by blast
  from edit reload save load kload ksave kvalue show ?thesis by blast
qed

theorem modified_flag_rules_witness:
  "current_script_modified (user_edit ''ab'' ex_script_ks)
   \<and> \<not> current_script_modified (loadScriptContents True True [] Yes ex_script_ks)
   \<and> editor_text (loadScriptContents True True [] Yes ex_script_ks) = ''a''
   \<and> knob (snd (loadKnobValue False True Yes ex_node_ks)) = ''reload''
   \<and> \<not> current_knob_modified (snd (saveKnobValue False Yes ex_node_ks))
   \<and> getKnobValue (Some ''reload'') (snd (saveKnobValue False Yes ex_node_ks)) = Some ''stop()''"
proof -
  have 1: "\<not> nodeMode ex_script_ks" by (simp add: ex_script_ks_def)
  have p: "script_path ex_script_ks [] = (''scripts'', ''a.py'')"
    by (simp add: script_path_def ex_script_ks_def)
  have 2: "isfile ex_script_ks (script_path ex_script_ks [])"
    by (simp add: p) (simp add: isfile_def ex_script_ks_def)
  have 3: "read_file ex_script_ks (''scripts'', ''a.py'') = ''a''"
    by (simp add: read_file_def ex_script_ks_def)
  have 4: "toLoadKnob ex_node_ks" "node ex_node_ks = Some ex_blink_node"
    "itemData (current_knob_dropdown ex_node_ks) (combo_index (current_knob_dropdown ex_node_ks))
       = Some ''reload''"
    "editor_text ex_node_ks = ''stop()''"
    by (simp_all add: ex_node_ks_def ex_script_ks_def itemData_def)
  have 5: "knobLanguage ex_blink_node ''reload'' \<noteq> None"
    "node_knob ex_blink_node ''reload''
       = Some \<lparr>knob_Class = ''PyScript_Knob'', knob_label = ''Reload'', knob_text = ''go()''\<rparr>"
    "node_Class ex_blink_node = ''BlinkScript''"
    by (simp_all add: knobLanguage_def node_knob_def ex_blink_node_def python_knob_classes_def)
  have 6: "fst (saveKnobValue False Yes ex_node_ks) = Returned"
    using roundtrip_python_knob [OF 4(3) 4(2) 5(2), of Yes] by simp
  note scr = modified_flag_rules [where s = ex_script_ks and t = "''ab''" and folder = "[]"
      and check = True and answer = Yes and pyOnly = True and n = ex_blink_node and dv = "[]"]
  from scr 1 have a1: "current_script_modified (user_edit ''ab'' ex_script_ks)" by blast
  from scr 2 have a2: "\<not> current_script_modified (loadScriptContents True True [] Yes ex_script_ks)
      \<and> editor_text (loadScriptContents True True [] Yes ex_script_ks)
          = read_file ex_script_ks (script_path ex_script_ks [])" by blast
  have a: "current_script_modified (user_edit ''ab'' ex_script_ks)
      \<and> \<not> current_script_modified (loadScriptContents True True [] Yes ex_script_ks)
      \<and> editor_text (loadScriptContents True True [] Yes ex_script_ks) = ''a''"
    using a1 a2 by (simp add: p 3)
  note knb = modified_flag_rules [where s = ex_node_ks and t = "[]" and folder = "[]"
      and check = False and answer = Yes and pyOnly = True and n = ex_blink_node and dv = "''reload''"]
  have 7: "''reload'' \<noteq> []" "\<not> (''reload'' = ''kernelSource'' \<and> node_Class ex_blink_node = ''BlinkScript'')"
    by simp_all
  from knb 4(1,2,3) 5(1) have b1: "knob (snd (loadKnobValue False True Yes ex_node_ks)) = ''reload''"
    by blast
  from knb 6 have b2: "\<not> current_knob_modified (snd (saveKnobValue False Yes ex_node_ks))" by blast
  from knb 4(2,3) 6 7 have b3: "getKnobValue (Some ''reload'') (snd (saveKnobValue False Yes ex_node_ks))
      = Some (editor_text ex_node_ks)" by blast
  have b: "knob (snd (loadKnobValue False True Yes ex_node_ks)) = ''reload''
      \<and> \<not> current_knob_modified (snd (saveKnobValue False Yes ex_node_ks))
      \<and> getKnobValue (Some ''reload'') (snd (saveKnobValue False Yes ex_node_ks)) = Some ''stop()''"
    using b1 b2 b3 by (simp add: 4(4))
  from a b show ?thesis by simp
qed

subsection \<open>C2: the autosave file after an autosave pass\<close>

text \<open>
  C2: after \<^verbatim>\<open>saveScriptContents(temp=True)\<close> the shadow file \<^verbatim>\<open><path>.autosave\<close> exists if
  and only if the editor buffer differs from the content of the canonical file (a missing
  canonical file counts as empty content); when it exists it holds the buffer, and when the
  buffer equals the canonical content an existing shadow file is removed. The canonical file
  and the buffer are not touched.
\<close>

theorem saveScriptContents_autosave:
  "(isfile (saveScriptContents True s) (autosave_path (script_path s []))
      \<longleftrightarrow> editor_text s \<noteq> (if isfile s (script_path s []) then read_file s (script_path s []) else []))
   \<and> (editor_text s \<noteq> (if isfile s (script_path s []) then read_file s (script_path s []) else [])
        \<longrightarrow> read_file (saveScriptContents True s) (autosave_path (script_path s [])) = editor_text s)
   \<and> isfile (saveScriptContents True s) (script_path s []) = isfile s (script_path s [])
   \<and> read_file (saveScriptContents True s) (script_path s []) = read_file s (script_path s [])
   \<and> editor_text (saveScriptContents True s) = editor_text s"
  by (auto simp: saveScriptContents_def Let_def saveScrollValue_def saveCursorPosValue_def
        isfile_def read_file_def write_file_def remove_file_def update_conv' delete_conv')

theorem saveScriptContents_autosave_witness:
  "isfile (saveScriptContents True ex_script_ks) (''scripts'', ''a.py.autosave'')
   \<and> read_file (saveScriptContents True ex_script_ks) (''scripts'', ''a.py.autosave'') = []
   \<and> \<not> isfile (saveScriptContents True (ex_autosaved_ks\<lparr>editor_text := ''A''\<rparr>)) (''scripts'', ''a.py.autosave'')"
proof -
  have p: "script_path ex_script_ks [] = (''scripts'', ''a.py'')"
    "script_path (ex_autosaved_ks\<lparr>editor_text := ''A''\<rparr>) [] = (''scripts'', ''a.py'')"
    by (simp_all add: script_path_def ex_script_ks_def ex_autosaved_ks_def)
  have 1: "isfile ex_script_ks (''scripts'', ''a.py'')"
    "read_file ex_script_ks (''scripts'', ''a.py'') = ''a''" "editor_text ex_script_ks = []"
    by (simp_all add: isfile_def read_file_def ex_script_ks_def)
  have 2: "isfile (ex_autosaved_ks\<lparr>editor_text := ''A''\<rparr>) (''scripts'', ''a.py'')"
    "read_file (ex_autosaved_ks\<lparr>editor_text := ''A''\<rparr>) (''scripts'', ''a.py'') = ''A''"
    by (simp_all add: isfile_def read_file_def ex_autosaved_ks_def)
  show ?thesis
    using saveScriptContents_autosave [of ex_script_ks]
      saveScriptContents_autosave [of "ex_autosaved_ks\<lparr>editor_text := ''A''\<rparr>"]
    by (simp add: p 1 2 autosave_path_def)
qed

subsection \<open>C3: loading a script that has an autosave file\<close>

text \<open>
  C3: when \<^verbatim>\<open>loadScriptContents\<close> finds the autosave file of the script and \<^verbatim>\<open>pyOnly\<close> is not
  requested, the content of the autosave file becomes the buffer, no message box is shown,
  and the script is marked modified.
\<close>

theorem loadScriptContents_autosave_wins:
  assumes "isfile s (autosave_path (script_path s folder))" and "\<not> pyOnly"
  shows "editor_text (loadScriptContents check pyOnly folder answer s)
           = read_file s (autosave_path (script_path s folder))
         \<and> current_script_modified (loadScriptContents check pyOnly folder answer s)
         \<and> shown (loadScriptContents check pyOnly folder answer s) = shown s"
  using assms by (subst (1 2 3) loadScriptContents.simps) (simp add: Let_def)

theorem loadScriptContents_autosave_wins_witness:
  "editor_text (loadScriptContents True False [] No ex_autosaved_ks) = ''B''
   \<and> current_script_modified (loadScriptContents True False [] No ex_autosaved_ks)
   \<and> shown (loadScriptContents True False [] No ex_autosaved_ks) = []"
proof -
  have p: "autosave_path (script_path ex_autosaved_ks []) = (''scripts'', ''a.py.autosave'')"
    by (simp add: script_path_def autosave_path_def ex_autosaved_ks_def ex_script_ks_def)
  have 1: "isfile ex_autosaved_ks (autosave_path (script_path ex_autosaved_ks []))"
    by (simp add: p) (simp add: isfile_def ex_autosaved_ks_def)
  have 2: "read_file ex_autosaved_ks (''scripts'', ''a.py.autosave'') = ''B''"
    by (simp add: read_file_def ex_autosaved_ks_def)
  have 3: "shown ex_autosaved_ks = []" by (simp add: ex_autosaved_ks_def ex_script_ks_def)
  show ?thesis
    using loadScriptContents_autosave_wins [OF 1, of False True No] 2 3 by (simp add: p)
qed

subsection \<open>C4: saving a knob over a changed value\<close>

text \<open>
  C4: when \<^verbatim>\<open>saveKnobValue\<close> runs with \<^verbatim>\<open>check=True\<close> and the value just read from the knob
  differs from the editor buffer, the overwrite question is shown, whatever the answer; when
  the user declines, the call returns with the node, the buffer, the unsaved records and the
  modified marks as they were (only \<^verbatim>\<open>self.knob\<close> now names the knob chosen in the drop-down).
\<close>

theorem saveKnobValue_declined:
  assumes "itemData (current_knob_dropdown s) (combo_index (current_knob_dropdown s)) = Some dv"
    and "node s = Some n"
    and "getKnobValue (Some dv) s = Some v"
    and "v \<noteq> editor_text s"
  shows "shown (snd (saveKnobValue True answer s)) = shown s @ [AskOverwriteKnob (node_name n) dv]
         \<and> saveKnobValue True No s
             = (Returned, s\<lparr>knob := dv, shown := shown s @ [AskOverwriteKnob (node_name n) dv]\<rparr>)"
  using assms
  by (cases answer) (auto simp: saveKnobValue_def Let_def ask_def split: option.splits)

theorem saveKnobValue_declined_witness:
  "node (snd (saveKnobValue True No ex_node_ks)) = Some ex_blink_node
   \<and> editor_text (snd (saveKnobValue True No ex_node_ks)) = ''stop()''
   \<and> unsavedKnobs (snd (saveKnobValue True No ex_node_ks)) = [(''knobChanged'', ''print(2)'')]
   \<and> shown (snd (saveKnobValue True No ex_node_ks)) = [AskOverwriteKnob ''BlinkScript1'' ''reload'']"
proof -
  have 1: "itemData (current_knob_dropdown ex_node_ks) (combo_index (current_knob_dropdown ex_node_ks))
             = Some ''reload''"
    by (simp add: ex_node_ks_def itemData_def)
  have 2: "node ex_node_ks = Some ex_blink_node" by (simp add: ex_node_ks_def)
  have 3: "getKnobValue (Some ''reload'') ex_node_ks = Some ''go()''"
    by (simp add: getKnobValue_def ex_node_ks_def ex_blink_node_def node_knob_def)
  have 4: "''go()'' \<noteq> editor_text ex_node_ks" by (simp add: ex_node_ks_def)
  show ?thesis
    using saveKnobValue_declined [OF 1 2 3 4, of No]
    by (simp add: ex_node_ks_def ex_script_ks_def ex_blink_node_def)
qed

subsection \<open>C5: writing the state file\<close>

text \<open>
  C5 (as stated): saving the persisted state is a full overwrite that does not read the state
  file first.

  \<^verbatim>\<open>saveScriptState\<close> starts with \<^verbatim>\<open>self.loadScriptState()\<close>. In the widget below the state
  file was written by another widget: its scroll entry for \<^verbatim>\<open>scripts/b.py\<close>, which this
  widget never held, is written back; the entry for \<^verbatim>\<open>scripts/c.py\<close> that this widget holds
  in memory is not written; and the foreign key \<^verbatim>\<open>theme\<close> survives.
\<close>

theorem saveScriptState_reads_disk:
  "scrollPos ex_state_ks ''scripts/b.py'' = None
   \<and> stored_scroll (saveScriptState ex_state_ks) ''scripts/b.py'' = Some 7
   \<and> scrollPos ex_state_ks ''scripts/c.py'' = Some 5
   \<and> stored_scroll (saveScriptState ex_state_ks) ''scripts/c.py'' = None
   \<and> stored_other (saveScriptState ex_state_ks) ''theme'' = Some ''dark''"
  by (simp add: stored_scroll_def stored_other_def saveScriptState_def loadScriptState_def Let_def
        json_of_dict_def dict_of_json_def saveScrollValue_def saveCursorPosValue_def
        ex_state_ks_def ex_script_ks_def script_fullname_def)

text \<open>
  C5 (amended): saving the persisted state rewrites the whole file after reading it. The
  scroll and cursor maps of the file, where the file has them, replace the maps held in
  memory (otherwise the maps in memory are used); the entries of the current document, the
  last folder, the last script and the splitter sizes are then set from the widget; every
  other key of the file is written back unchanged. Without a state file the record is built
  from the widget alone.
\<close>

theorem saveScriptState_written:
  "state_txt (saveScriptState s) =
     Some \<lparr>js_scroll_pos =
             Some ((case state_txt s of
                      None \<Rightarrow> scrollPos s
                    | Some j \<Rightarrow> (case js_scroll_pos j of None \<Rightarrow> scrollPos s | Some m \<Rightarrow> m))
                   ((if nodeMode s then knob s else script_fullname s) \<mapsto> editor_scroll s)),
           js_cursor_pos =
             Some ((case state_txt s of
                      None \<Rightarrow> cursorPos s
                    | Some j \<Rightarrow> (case js_cursor_pos j of None \<Rightarrow> cursorPos s | Some m \<Rightarrow> m))
                   (script_fullname s \<mapsto> editor_cursor s)),
           js_last_folder = Some (current_folder s),
           js_last_script = Some (current_script s),
           js_splitter_sizes = Some (splitter_sizes s),
           js_other = (case state_txt s of None \<Rightarrow> Map.empty | Some j \<Rightarrow> js_other j)\<rparr>"
  by (simp add: saveScriptState_def loadScriptState_def Let_def json_of_dict_def dict_of_json_def
        saveScrollValue_def saveCursorPosValue_def empty_state_dict_def script_fullname_def
      split: option.splits)

subsection \<open>C6: reloading all knobs\<close>

text \<open>
  C6 (as stated): the bulk reload asks for one confirmation only when more than one document
  is dirty.

  \<^verbatim>\<open>loadAllKnobValues\<close> tests \<^verbatim>\<open>len(self.unsavedKnobs) >= 1\<close>. In the widget below exactly one
  document is dirty: the buffer equals the value of the current knob \<^verbatim>\<open>reload\<close> and its flag
  is clear, the single unsaved record (for \<^verbatim>\<open>knobChanged\<close>) differs from its knob, and
  \<^verbatim>\<open>updateUnsavedKnobs\<close> counts one. The question is shown all the same.
\<close>

theorem loadAllKnobValues_one_unsaved:
  "length (unsavedKnobs ex_one_dirty_ks) = 1
   \<and> getKnobValue (Some (knob ex_one_dirty_ks)) ex_one_dirty_ks = Some (editor_text ex_one_dirty_ks)
   \<and> \<not> current_knob_modified ex_one_dirty_ks
   \<and> map_option fst (updateUnsavedKnobs ex_one_dirty_ks) = Some 1
   \<and> shown ex_one_dirty_ks = []
   \<and> shown (loadAllKnobValues No ex_one_dirty_ks) = [AskReloadAllKnobs]"
proof -
  have u: "map_option fst (updateUnsavedKnobs ex_one_dirty_ks) = Some 1"
    by (simp add: updateUnsavedKnobs_def Let_def ex_one_dirty_ks_def ex_node_ks_def ex_script_ks_def
          ex_blink_node_def node_knob_def getKnobValue_def)
  show ?thesis
    by (simp add: u)
       (simp add: loadAllKnobValues_def ex_one_dirty_ks_def ex_node_ks_def ex_script_ks_def ask_def
          getKnobValue_def ex_blink_node_def node_knob_def)
qed

text \<open>
  C6 (amended): the bulk reload asks for one confirmation exactly when at least one unsaved
  record exists; when the user declines nothing but the record of the question changes, so no
  unsaved record is discarded; when the user accepts, or when nothing was asked, every unsaved
  record is discarded.
\<close>

theorem loadAllKnobValues_confirm:
  "shown (loadAllKnobValues answer s)
     = shown s @ (if length (unsavedKnobs s) \<ge> 1 then [AskReloadAllKnobs] else [])
   \<and> (length (unsavedKnobs s) \<ge> 1 \<and> answer = No \<longrightarrow>
        loadAllKnobValues answer s = s\<lparr>shown := shown s @ [AskReloadAllKnobs]\<rparr>)
   \<and> (length (unsavedKnobs s) = 0 \<or> answer = Yes \<longrightarrow>
        unsavedKnobs (loadAllKnobValues answer s) = [])"
  by (cases answer) (auto simp: loadAllKnobValues_def ask_def Let_def)

theorem loadAllKnobValues_confirm_witness:
  "unsavedKnobs (loadAllKnobValues No ex_node_ks) = [(''knobChanged'', ''print(2)'')]
   \<and> unsavedKnobs (loadAllKnobValues Yes ex_node_ks) = []"
proof -
  have 1: "length (unsavedKnobs ex_node_ks) \<ge> 1" by (simp add: ex_node_ks_def)
  show ?thesis
    using loadAllKnobValues_confirm [of No ex_node_ks] loadAllKnobValues_confirm [of Yes ex_node_ks] 1
    by (simp add: ex_node_ks_def)
qed

subsection \<open>C7: writing a text and reading it back\<close>

text \<open>
  C7: for every text, writing it to a backing store and reading the store gives the text back.

  In the model this holds for a script file (\<open>roundtrip_file\<close>), for a knob written with
  \<^verbatim>\<open>setValue\<close> (\<open>roundtrip_python_knob\<close>), and for a Blink kernel whose text has neither a
  backslash nor a dollar sign (\<open>roundtrip_blink_plain\<close>). A Blink kernel is written through a
  Tcl command in which only \<^verbatim>\<open>"\<close> and \<^verbatim>\<open>[\<close> are escaped. For a buffer of two backslashes the
  command sent is \<^verbatim>\<open>knob BlinkScript1.kernelSource "\\"\<close>; Tcl reads the quoted word as one
  backslash, and that is what \<^verbatim>\<open>getKnobValue\<close> returns after the save.
\<close>

theorem saveKnobValue_blink_backslash:
  "editor_text ex_blink_ks = [backslash, backslash]
   \<and> tcl_knob_command ''BlinkScript1'' (editor_text ex_blink_ks)
       = ''knob BlinkScript1.kernelSource '' @ [dquote, backslash, backslash, dquote]
   \<and> fst (saveKnobValue False Yes ex_blink_ks) = Returned
   \<and> getKnobValue (Some ''kernelSource'') (snd (saveKnobValue False Yes ex_blink_ks)) = Some [backslash]"
proof -
  have e: "editor_text ex_blink_ks = [backslash, backslash]" by (simp add: ex_blink_ks_def)
  have esc: "tcl_escape [backslash, backslash] = [backslash, backslash]"
    by (simp add: tcl_escape_def backslash_def dquote_def)
  have c: "tcl_knob_command ''BlinkScript1'' [backslash, backslash]
       = ''knob BlinkScript1.kernelSource '' @ [dquote, backslash, backslash, dquote]"
    by (simp add: tcl_knob_command_def esc)
  have q: "\<not> tcl_numeric_escape backslash" "tcl_control backslash = None" "backslash \<noteq> dquote"
    by (simp_all add: backslash_def dquote_def tcl_numeric_escape_def tcl_control_def)
  have nm: "node_name ex_blink_node = ''BlinkScript1''" "node_Class ex_blink_node = ''BlinkScript''"
    "node_knob ex_blink_node ''kernelSource'' \<noteq> None"
    by (simp_all add: ex_blink_node_def node_knob_def)
  have t: "nuke_tcl (tcl_knob_command (node_name ex_blink_node) [backslash, backslash]) ex_blink_node
           = Some (knob_setValue ''kernelSource'' [backslash] ex_blink_node)"
    using nm(3) by (simp add: nuke_tcl_command esc q)
  have d: "itemData (current_knob_dropdown ex_blink_ks) (combo_index (current_knob_dropdown ex_blink_ks))
             = Some ''kernelSource''"
    by (simp add: ex_blink_ks_def itemData_def)
  have n: "node ex_blink_ks = Some ex_blink_node" by (simp add: ex_blink_ks_def)
  have g: "getKnobValue (Some ''kernelSource'') ex_blink_ks \<noteq> None"
    using nm(3) by (auto simp: getKnobValue_def n)
  have s: "saveKnobValue False Yes ex_blink_ks =
      (Returned, (let s3 = setKnobModified False ''kernelSource'' True
                     (ex_blink_ks\<lparr>knob := ''kernelSource'',
                        node := Some (knob_setValue ''kernelSource'' [backslash] ex_blink_node)\<rparr>);
                      s4 = s3\<lparr>root_modified := True\<rparr>
                  in if map_of (unsavedKnobs s4) (knob s4) \<noteq> None
                     then s4\<lparr>unsavedKnobs := AList.delete (knob s4) (unsavedKnobs s4)\<rparr> else s4))"
    using g t by (auto simp: saveKnobValue_def d n e nm Let_def simp del: setKnobModified_fields)
  have v: "getKnobValue (Some ''kernelSource'') (snd (saveKnobValue False Yes ex_blink_ks))
      = Some [backslash]"
  proof -
    from nm(3) obtain kb where kb: "node_knob ex_blink_node ''kernelSource'' = Some kb" by auto
    show ?thesis by (simp add: s Let_def getKnobValue_def node_knob_setValue nm(1,2) kb)
  qed
  show ?thesis using e c v by (simp add: s)
qed

subsection \<open>C8: deleting a script\<close>

text \<open>
  C8 (as stated): a confirmed deletion removes the canonical file and the autosave file of the
  script where present, removing an absent autosave file is no failure, and a following
  enumeration of the folder no longer lists the script.

  \<^verbatim>\<open>updateScriptsDropdown\<close> always offers the default script \<^verbatim>\<open>Untitled.py\<close> when the folder
  holds no script: after \<^verbatim>\<open>Untitled.py\<close>, the only script of the folder, is deleted together
  with its autosave file, the enumeration lists \<^verbatim>\<open>Untitled.py\<close> again.
\<close>

theorem deleteScript_untitled_listed:
  "fst (deleteScript True [] Yes ex_untitled_ks)
   \<and> files (snd (deleteScript True [] Yes ex_untitled_ks)) = []
   \<and> item_datas (current_script_dropdown
        (updateScriptsDropdown (snd (deleteScript True [] Yes ex_untitled_ks))))
       = [''Untitled.py'', ''create new'', ''create duplicate'', ''delete script'', ''open in browser'']"
proof -
  have f: "files (snd (deleteScript True [] Yes ex_untitled_ks)) = []"
    by (simp add: deleteScript_confirmed(2) script_path_def autosave_path_def
          ex_untitled_ks_def ex_script_ks_def)
  have "listdir (snd (deleteScript True [] Yes ex_untitled_ks)) d = []" for d
    by (simp add: listdir_def f)
  then show ?thesis
    by (simp add: deleteScript_confirmed(1) f updateScriptsDropdown_datas)
qed

text \<open>
  C8 (amended): a confirmed (or unchecked) deletion of the current script returns true and
  leaves neither the canonical file nor the autosave file, whether or not each was present
  before. The following enumeration of the folder lists the deleted script only in one case:
  the script is the default \<^verbatim>\<open>Untitled.py\<close> and the folder holds no \<^verbatim>\<open>.py\<close> file any more,
  where the default entry is offered. (Directory entries hold no \<^verbatim>\<open>/\<close>.)
\<close>

theorem deleteScript_then_enumerate:
  assumes "endswith (current_script s) ''.py''"
    and "\<forall>e \<in> set (files s). CHR ''/'' \<notin> set (snd (fst e))"
    and "\<not> check \<or> answer = Yes"
  shows "fst (deleteScript check [] answer s)
     \<and> \<not> isfile (snd (deleteScript check [] answer s)) (script_path s [])
     \<and> \<not> isfile (snd (deleteScript check [] answer s)) (autosave_path (script_path s []))
     \<and> (current_script s
            \<in> set (item_datas (current_script_dropdown
                                 (updateScriptsDropdown (snd (deleteScript check [] answer s)))))
          \<longleftrightarrow> current_script s = ''Untitled.py''
              \<and> filter (\<lambda>f. endswith f ''.py'')
                   (listdir (snd (deleteScript check [] answer s)) (current_folder s)) = [])"
proof -
  let ?s' = "snd (deleteScript check [] answer s)"
  let ?p = "script_path s []"
  let ?n = "current_script s"
  let ?dir = "listdir ?s' (current_folder s)"
  note d = deleteScript_confirmed [OF assms(3), of "[]" s]
  have fp: "fst ?p = current_folder s" "snd ?p = ?n" by (simp_all add: script_path_def)
  note l = listdir_deleted [OF d(2) fp(1), unfolded fp(2)]
  have nofile: "\<not> isfile ?s' ?p" "\<not> isfile ?s' (autosave_path ?p)"
    by (simp_all add: isfile_def d(2) delete_conv')
  have noslash: "CHR ''/'' \<notin> set f" if "f \<in> set ?dir" for f
  proof -
    from that l(3) have "f \<in> set (listdir s (current_folder s))" by blast
    with assms(2) show ?thesis by (auto simp: listdir_def)
  qed
  have notfound: "?n \<notin> split_last (CHR ''/'') ` set (filter (\<lambda>f. endswith f ''.py'') ?dir)"
  proof
    assume "?n \<in> split_last (CHR ''/'') ` set (filter (\<lambda>f. endswith f ''.py'') ?dir)"
    then obtain f where f: "f \<in> set ?dir" "?n = split_last (CHR ''/'') f" by auto
    with noslash have "?n = f" by (simp add: split_last_id)
    with f(1) l(1) show False by simp
  qed
  have untitled: "?n = ''Untitled.py'' \<Longrightarrow>
      ''Untitled.py.autosave'' \<notin> set ?dir \<and> ''Untitled.py'' \<notin> set ?dir"
    using l(1,2) by auto
  have listed: "?n \<in> set (item_datas (current_script_dropdown (updateScriptsDropdown ?s')))
      \<longleftrightarrow> ?n = ''Untitled.py'' \<and> filter (\<lambda>f. endswith f ''.py'') ?dir = []"
    using sentinel_not_py [OF assms(1)] notfound untitled
    by (auto simp: updateScriptsDropdown_datas Let_def d(3))
  show ?thesis using d(1) nofile listed by blast
qed

theorem deleteScript_then_enumerate_witness:
  "\<not> isfile (snd (deleteScript True [] Yes ex_two_scripts_ks)) (''scripts'', ''a.py'')
   \<and> ''a.py'' \<notin> set (item_datas (current_script_dropdown
        (updateScriptsDropdown (snd (deleteScript True [] Yes ex_two_scripts_ks)))))"
proof -
  have 1: "endswith (current_script ex_two_scripts_ks) ''.py''"
    by (simp add: ex_two_scripts_ks_def ex_script_ks_def endswith_def suffix_to_prefix)
  have 2: "\<forall>e \<in> set (files ex_two_scripts_ks). CHR ''/'' \<notin> set (snd (fst e))"
    by (simp add: ex_two_scripts_ks_def)
  have 3: "current_script ex_two_scripts_ks = ''a.py''"
    "script_path ex_two_scripts_ks [] = (''scripts'', ''a.py'')"
    by (simp_all add: ex_two_scripts_ks_def ex_script_ks_def script_path_def)
  show ?thesis
    using deleteScript_then_enumerate [OF 1 2, of True Yes] by (simp add: 3)
qed

subsection \<open>C9: the language of a knob\<close>

text \<open>
  C9: for every node and knob name, \<^verbatim>\<open>knobLanguage\<close> gives blink exactly for the knob
  \<^verbatim>\<open>kernelSource\<close> of a \<^verbatim>\<open>BlinkScript\<close> node; python exactly for any other knob of the node
  whose name is one of the default (callback) knob names or whose class is one of the python
  knob classes; and no language otherwise, in particular when the node has no knob of that
  name.
\<close>

theorem knobLanguage_rules:
  "(is_blink_knob n k \<longleftrightarrow> k = ''kernelSource'' \<and> node_Class n = ''BlinkScript'')
   \<and> (knobLanguage n k = Some Blink \<longleftrightarrow> node_knob n k \<noteq> None \<and> is_blink_knob n k)
   \<and> (knobLanguage n k = Some Python \<longleftrightarrow>
        (\<exists>kb. node_knob n k = Some kb \<and> \<not> is_blink_knob n k \<and>
              (k \<in> set defaultKnobs \<or> knob_Class kb \<in> set python_knob_classes)))
   \<and> (knobLanguage n k = None \<longleftrightarrow>
        (case node_knob n k of
           None \<Rightarrow> True
         | Some kb \<Rightarrow> \<not> is_blink_knob n k \<and> k \<notin> set defaultKnobs
                       \<and> knob_Class kb \<notin> set python_knob_classes))"
  by (auto simp: knobLanguage_def is_blink_knob_def split: option.splits)

theorem knobLanguage_rules_witness:
  "knobLanguage ex_blink_node ''kernelSource'' = Some Blink
   \<and> knobLanguage ex_blink_node ''reload'' = Some Python
   \<and> knobLanguage ex_blink_node ''knobChanged'' = Some Python
   \<and> knobLanguage ex_blink_node ''label'' = None
   \<and> knobLanguage ex_blink_node ''onCreate'' = None"
  using knobLanguage_rules [of ex_blink_node "''kernelSource''"]
    knobLanguage_rules [of ex_blink_node "''reload''"]
    knobLanguage_rules [of ex_blink_node "''knobChanged''"]
    knobLanguage_rules [of ex_blink_node "''label''"]
    knobLanguage_rules [of ex_blink_node "''onCreate''"]
  by (simp add: ex_blink_node_def node_knob_def defaultKnobs_def python_knob_classes_def)

subsection \<open>C10: the unsaved knobs after \<^verbatim>\<open>updateUnsavedKnobs\<close>\<close>

text \<open>
  C10 (as stated): after \<^verbatim>\<open>updateUnsavedKnobs()\<close> returns, every remaining key names a
  knob of the node whose stored text differs from the knob's value; the returned value is the
  number of remaining entries, and it is 0 whenever the node no longer exists.

  When the node is gone the method returns 0 at once and leaves the map alone, so the
  returned 0 is not the number of entries that remain.
\<close>

theorem updateUnsavedKnobs_node_deleted:
  "updateUnsavedKnobs ex_deleted_node_ks = Some (0, ex_deleted_node_ks)
   \<and> length (unsavedKnobs ex_deleted_node_ks) = 1"
  by (simp add: updateUnsavedKnobs_def ex_deleted_node_ks_def ex_node_ks_def)

text \<open>
  C10 (amended): when the node no longer exists, \<^verbatim>\<open>updateUnsavedKnobs()\<close> returns 0 and
  leaves the map as it was. When the node exists and the call returns (it does whenever the
  node has no knob with the empty name), every remaining key names a knob of the node, the
  stored text differs from the value \<^verbatim>\<open>getKnobValue\<close> reads for that key, and the returned
  value is the number of remaining entries.
\<close>

theorem updateUnsavedKnobs_result:
  assumes "distinct (map fst (unsavedKnobs s))"
  shows "(node s = None \<longrightarrow> updateUnsavedKnobs s = Some (0, s))
       \<and> (\<forall>n. node s = Some n \<longrightarrow>
            (node_knob n [] = None \<longrightarrow> updateUnsavedKnobs s \<noteq> None)
          \<and> (\<forall>c s'. updateUnsavedKnobs s = Some (c, s') \<longrightarrow>
                c = length (unsavedKnobs s') \<and> distinct (map fst (unsavedKnobs s'))
              \<and> node s' = Some n
              \<and> (\<forall>(k, u) \<in> set (unsavedKnobs s').
                    node_knob n k \<noteq> None
                    \<and> (\<exists>v. getKnobValue (Some k) s' = Some v \<and> v \<noteq> u))))"
proof (intro conjI allI impI)
  assume "node s = None"
  then show "updateUnsavedKnobs s = Some (0, s)" by (simp add: updateUnsavedKnobs_def)
next
  fix n assume n: "node s = Some n"
  let ?s1 = "s\<lparr>unsavedKnobs := AList.update (knob s) (editor_text s) (unsavedKnobs s)\<rparr>"
  have d1: "distinct (map fst (unsavedKnobs ?s1))" using assms by (simp add: distinct_update)
  have n1: "node ?s1 = Some n" using n by simp
  have ne: "unsavedKnobs ?s1 \<noteq> []" by simp
  have upd: "updateUnsavedKnobs s =
     (case prune_unsaved (map fst (unsavedKnobs ?s1)) ?s1 of
        None \<Rightarrow> None
      | Some s2 \<Rightarrow>
          Some (length (unsavedKnobs s2),
                mark_knobs (filter_truthy (map snd (combo_items (current_knob_dropdown s2)))) s2))"
    using n ne by (simp add: updateUnsavedKnobs_def Let_def split: option.splits)
  {
    assume "node_knob n [] = None"
    then have "prune_unsaved (map fst (unsavedKnobs ?s1)) ?s1 \<noteq> None"
      using prune_unsaved_returns [OF n1 _ d1] by simp
    then show "updateUnsavedKnobs s \<noteq> None" by (auto simp: upd)
  }
  fix c s' assume r: "updateUnsavedKnobs s = Some (c, s')"
  then obtain s2 where s2: "prune_unsaved (map fst (unsavedKnobs ?s1)) ?s1 = Some s2"
    and c: "c = length (unsavedKnobs s2)"
    and s': "s' = mark_knobs (filter_truthy (map snd (combo_items (current_knob_dropdown s2)))) s2"
    by (auto simp: upd split: option.splits)
  from prune_unsaved_sound [OF s2 n1 d1]
  have ps: "s2 = ?s1\<lparr>unsavedKnobs := unsavedKnobs s2\<rparr>"
    "set (unsavedKnobs s2) \<subseteq> set (unsavedKnobs ?s1)"
    "distinct (map fst (unsavedKnobs s2))"
    "\<forall>(k, u) \<in> set (unsavedKnobs s2). k \<in> set (map fst (unsavedKnobs ?s1)) \<longrightarrow>
        node_knob n k \<noteq> None \<and> (\<exists>v. getKnobValue (Some k) ?s1 = Some v \<and> v \<noteq> u)"
    by blast+
  have nk: "node s2 = node s" "knob s2 = knob s"
    by (subst ps(1), simp)+
  have g: "getKnobValue (Some k) s' = getKnobValue (Some k) s" for k
    by (rule getKnobValue_cong) (simp_all add: s' nk)
  show "c = length (unsavedKnobs s')" by (simp add: c s')
  show "distinct (map fst (unsavedKnobs s'))" by (simp add: s' ps(3))
  show "node s' = Some n" by (simp add: s' nk n)
  show "\<forall>(k, u) \<in> set (unsavedKnobs s').
          node_knob n k \<noteq> None \<and> (\<exists>v. getKnobValue (Some k) s' = Some v \<and> v \<noteq> u)"
  proof (clarify)
    fix k u assume "(k, u) \<in> set (unsavedKnobs s')"
    then have m: "(k, u) \<in> set (unsavedKnobs s2)" by (simp add: s')
    then have "k \<in> set (map fst (unsavedKnobs ?s1))" using ps(2) by force
    with ps(4) m have "node_knob n k \<noteq> None \<and> (\<exists>v. getKnobValue (Some k) ?s1 = Some v \<and> v \<noteq> u)"
      by blast
    then show "node_knob n k \<noteq> None \<and> (\<exists>v. getKnobValue (Some k) s' = Some v \<and> v \<noteq> u)"
      by (simp add: g)
  qed
qed

theorem updateUnsavedKnobs_result_witness:
  "updateUnsavedKnobs ex_node_ks \<noteq> None
   \<and> (case updateUnsavedKnobs ex_node_ks of
         None \<Rightarrow> False
       | Some (c, s') \<Rightarrow> c = length (unsavedKnobs s') \<and> node s' = Some ex_blink_node)
   \<and> updateUnsavedKnobs ex_deleted_node_ks = Some (0, ex_deleted_node_ks)"
proof -
  have 1: "distinct (map fst (unsavedKnobs ex_node_ks))"
    "distinct (map fst (unsavedKnobs ex_deleted_node_ks))"
    by (simp_all add: ex_node_ks_def ex_deleted_node_ks_def)
  have 2: "node ex_node_ks = Some ex_blink_node" "node ex_deleted_node_ks = None"
    by (simp_all add: ex_node_ks_def ex_deleted_node_ks_def)
  have 3: "node_knob ex_blink_node [] = None"
    by (simp add: node_knob_def ex_blink_node_def)
  show ?thesis
    using updateUnsavedKnobs_result [OF 1(1)] updateUnsavedKnobs_result [OF 1(2)] 2 3
    by (auto split: option.splits)
qed

end
